theory Spec2Isabelle
  imports Complex_Main "HOL-Library.Sublist"
begin

section \<open>Python values and exceptions\<close>

text \<open>
  A Python \<^verbatim>\<open>float\<close>, an IEEE 754 double: a finite one is kept by the exact rational
  number it stands for (the sign of a zero is not kept), the others are the two
  infinities and NaN.
\<close>

datatype pyfloat = Fin rat | PInf | NInf | NaN

text \<open>
  The values that \<^verbatim>\<open>response.json()\<close> hands to the client and to the models. A JSON
  object is a Python dict, kept as an association list in which the first binding of a
  key is the one that counts.
\<close>

datatype json =
    JNull
  | JBool bool
  | JInt int
  | JFloat pyfloat
  | JStr string
  | JArr "json list"
  | JObj "(string \<times> json) list"

text \<open>
  The exceptions of \<^verbatim>\<open>investec_api/exceptions.py\<close> (the message text is left out; the
  status code and the parsed body are kept, \<open>JNull\<close> standing for \<^verbatim>\<open>None\<close>), each
  constructor being the exact class raised, and the built-in exceptions that the code
  lets escape.
\<close>

datatype error =
    InvestecAPIError
  | InvestecAuthError
  | InvestecRequestError int json
  | InvestecRateLimitError int json
  | TypeError
  | AttributeError
  | KeyError
  | ValueError
  | OverflowError
  | InvalidOperation

definition ebind :: "error + 'a \<Rightarrow> ('a \<Rightarrow> error + 'b) \<Rightarrow> error + 'b" where
  "ebind m f = (case m of Inl e \<Rightarrow> Inl e | Inr x \<Rightarrow> f x)"

fun map_err :: "('a \<Rightarrow> error + 'b) \<Rightarrow> 'a list \<Rightarrow> error + 'b list" where
  "map_err f [] = Inr []"
| "map_err f (x # xs) =
     (case f x of
        Inl e \<Rightarrow> Inl e
      | Inr y \<Rightarrow> (case map_err f xs of Inl e \<Rightarrow> Inl e | Inr ys \<Rightarrow> Inr (y # ys)))"

text \<open>Truthiness: \<^verbatim>\<open>not v\<close> is the negation of \<open>py_bool v\<close>.\<close>

fun py_bool :: "json \<Rightarrow> bool" where
  "py_bool JNull = False"
| "py_bool (JBool b) = b"
| "py_bool (JInt i) = (i \<noteq> 0)"
| "py_bool (JFloat x) = (x \<noteq> Fin 0)"
| "py_bool (JStr s) = (s \<noteq> [])"
| "py_bool (JArr xs) = (xs \<noteq> [])"
| "py_bool (JObj d) = (d \<noteq> [])"

definition dict_get :: "(string \<times> json) list \<Rightarrow> string \<Rightarrow> json \<Rightarrow> json" where
  "dict_get d k dflt = (case map_of d k of None \<Rightarrow> dflt | Some v \<Rightarrow> v)"

text \<open>\<^verbatim>\<open>data.get(k, dflt)\<close>: only a dict has the method.\<close>

fun py_get :: "json \<Rightarrow> string \<Rightarrow> json \<Rightarrow> error + json" where
  "py_get (JObj d) k dflt = Inr (dict_get d k dflt)"
| "py_get _ k dflt = Inl AttributeError"

fun is_substring :: "string \<Rightarrow> string \<Rightarrow> bool" where
  "is_substring k [] = (k = [])"
| "is_substring k (c # cs) = (prefix k (c # cs) \<or> is_substring k cs)"

text \<open>
  \<^verbatim>\<open>k in v\<close> for a string \<open>k\<close>: a key of a dict, an element of a list, a substring of a
  string; any other value is not a container.
\<close>

fun py_contains :: "string \<Rightarrow> json \<Rightarrow> error + bool" where
  "py_contains k (JObj d) = Inr (map_of d k \<noteq> None)"
| "py_contains k (JArr xs) = Inr (JStr k \<in> set xs)"
| "py_contains k (JStr s) = Inr (is_substring k s)"
| "py_contains k _ = Inl TypeError"

text \<open>\<^verbatim>\<open>v[k]\<close> for a string \<open>k\<close>: lists and strings take integer indices only.\<close>

fun py_getitem :: "json \<Rightarrow> string \<Rightarrow> error + json" where
  "py_getitem (JObj d) k = (case map_of d k of None \<Rightarrow> Inl KeyError | Some v \<Rightarrow> Inr v)"
| "py_getitem _ k = Inl TypeError"

text \<open>\<^verbatim>\<open>for item in v\<close>: the elements of a list, the keys of a dict, the characters of a string.\<close>

fun py_iter :: "json \<Rightarrow> error + json list" where
  "py_iter (JArr xs) = Inr xs"
| "py_iter (JObj d) = Inr (map JStr (remdups (map fst d)))"
| "py_iter (JStr s) = Inr (map (\<lambda>c. JStr [c]) s)"
| "py_iter _ = Inl TypeError"

text \<open>\<^verbatim>\<open>str.lower()\<close> on ASCII text.\<close>

definition lower_char :: "char \<Rightarrow> char" where
  "lower_char c =
     (case map_of (zip ''ABCDEFGHIJKLMNOPQRSTUVWXYZ'' ''abcdefghijklmnopqrstuvwxyz'') c of
        None \<Rightarrow> c
      | Some l \<Rightarrow> l)"

definition lower :: "string \<Rightarrow> string" where
  "lower s = map lower_char s"

section \<open>Models: beneficiary category\<close>

record BeneficiaryCategory =
  id' :: json
  is_default :: bool
  name :: json


section \<open>Models: transfer and payment responses\<close>

record TransferResponseItem =
  payment_reference_number :: json
  payment_date :: json
  status :: json
  beneficiary_name :: json
  beneficiary_account_id :: json
  authorisation_required :: json

definition TransferResponseItem_from_dict :: "json \<Rightarrow> error + TransferResponseItem" where
  "TransferResponseItem_from_dict data =
     (case data of
        JObj d \<Rightarrow> Inr \<lparr>
          payment_reference_number = dict_get d ''PaymentReferenceNumber'' JNull,
          payment_date = dict_get d ''PaymentDate'' JNull,
          status = dict_get d ''Status'' JNull,
          beneficiary_name = dict_get d ''BeneficiaryName'' JNull,
          beneficiary_account_id = dict_get d ''BeneficiaryAccountId'' JNull,
          authorisation_required = dict_get d ''AuthorisationRequired'' (JBool False) \<rparr>
      | _ \<Rightarrow> Inl AttributeError)"

record TransferResponse =
  transfer_responses :: "TransferResponseItem list"
  error_message :: json

text \<open>
  The \<^verbatim>\<open>if ... elif ...\<close> of \<^verbatim>\<open>TransferResponse.from_dict\<close>, once for
  \<^verbatim>\<open>TransferResponses\<close> and once for \<^verbatim>\<open>ErrorMessage\<close>: the key under
  \<^verbatim>\<open>transferResponse\<close> first, the key at top level next, else nothing.
\<close>

definition nested_or_bare :: "json \<Rightarrow> string \<Rightarrow> error + json option" where
  "nested_or_bare data k =
     ebind (py_contains ''transferResponse'' data) (\<lambda>has_nested.
     ebind (if has_nested
            then ebind (py_getitem data ''transferResponse'') (\<lambda>inner. py_contains k inner)
            else Inr False) (\<lambda>in_nested.
       if in_nested
       then ebind (py_getitem data ''transferResponse'') (\<lambda>inner.
            ebind (py_getitem inner k) (\<lambda>v. Inr (Some v)))
       else ebind (py_contains k data) (\<lambda>in_bare.
              if in_bare then ebind (py_getitem data k) (\<lambda>v. Inr (Some v)) else Inr None)))"

definition TransferResponse_from_dict :: "json \<Rightarrow> error + TransferResponse" where
  "TransferResponse_from_dict data =
     ebind (nested_or_bare data ''TransferResponses'') (\<lambda>r.
     ebind (py_iter (case r of None \<Rightarrow> JArr [] | Some v \<Rightarrow> v)) (\<lambda>responses.
     ebind (map_err TransferResponseItem_from_dict responses) (\<lambda>items.
     ebind (nested_or_bare data ''ErrorMessage'') (\<lambda>m.
       Inr \<lparr> transfer_responses = items,
             error_message = (case m of None \<Rightarrow> JNull | Some v \<Rightarrow> v) \<rparr>))))"

record PaymentResponseItem =
  payment_reference_number :: json
  payment_date :: json
  status :: json
  beneficiary_name :: json
  beneficiary_account_id :: json
  authorisation_required :: json

definition PaymentResponseItem_from_dict :: "json \<Rightarrow> error + PaymentResponseItem" where
  "PaymentResponseItem_from_dict data =
     (case data of
        JObj d \<Rightarrow> Inr \<lparr>
          PaymentResponseItem.payment_reference_number = dict_get d ''PaymentReferenceNumber'' JNull,
          PaymentResponseItem.payment_date = dict_get d ''PaymentDate'' JNull,
          PaymentResponseItem.status = dict_get d ''Status'' JNull,
          PaymentResponseItem.beneficiary_name = dict_get d ''BeneficiaryName'' JNull,
          PaymentResponseItem.beneficiary_account_id = dict_get d ''BeneficiaryAccountId'' JNull,
          PaymentResponseItem.authorisation_required =
            dict_get d ''AuthorisationRequired'' (JBool False) \<rparr>
      | _ \<Rightarrow> Inl AttributeError)"

record PaymentResponse =
  transfer_responses :: "PaymentResponseItem list"
  error_message :: json

text \<open>
  \<^verbatim>\<open>PaymentResponse.from_dict\<close> reads \<^verbatim>\<open>TransferResponses\<close> and
  \<^verbatim>\<open>ErrorMessage\<close> at top level only.
\<close>

definition PaymentResponse_from_dict :: "json \<Rightarrow> error + PaymentResponse" where
  "PaymentResponse_from_dict data =
     ebind (py_contains ''TransferResponses'' data) (\<lambda>has.
     ebind (if has then py_getitem data ''TransferResponses'' else Inr (JArr [])) (\<lambda>r.
     ebind (py_iter r) (\<lambda>responses.
     ebind (map_err PaymentResponseItem_from_dict responses) (\<lambda>items.
     ebind (py_get data ''ErrorMessage'' JNull) (\<lambda>m.
       Inr \<lparr> PaymentResponse.transfer_responses = items,
             PaymentResponse.error_message = m \<rparr>)))))"

section \<open>Rendering values as text\<close>

definition digit_char :: "nat \<Rightarrow> char" where
  "digit_char n = ''0123456789'' ! n"

fun str_nat :: "nat \<Rightarrow> string" where
  "str_nat n = (if n < 10 then [digit_char n] else str_nat (n div 10) @ [digit_char (n mod 10)])"

declare str_nat.simps [simp del]

definition str_int :: "int \<Rightarrow> string" where
  "str_int i = (if i < 0 then CHR ''-'' # str_nat (nat (- i)) else str_nat (nat i))"

text \<open>
  \<^verbatim>\<open>str(v)\<close>. For a float and for a container \<^verbatim>\<open>str\<close> is \<^verbatim>\<open>repr\<close>, which is the
  interpreter's and is taken as the parameter \<open>repr\<close>.
\<close>

fun py_str :: "(json \<Rightarrow> string) \<Rightarrow> json \<Rightarrow> string" where
  "py_str repr JNull = ''None''"
| "py_str repr (JBool b) = (if b then ''True'' else ''False'')"
| "py_str repr (JInt i) = str_int i"
| "py_str repr (JStr s) = s"
| "py_str repr v = repr v"

section \<open>Floating-point arithmetic\<close>

text \<open>\<^verbatim>\<open>int.bit_length()\<close>: the number of binary digits of a positive integer.\<close>

function bit_length :: "int \<Rightarrow> nat" where
  "bit_length i = (if i \<le> 0 then 0 else Suc (bit_length (i div 2)))"
  by pat_completeness auto
termination
  by (relation "measure nat") auto

declare bit_length.simps [simp del]

definition pow2 :: "int \<Rightarrow> rat" where
  "pow2 k = (if k \<ge> 0 then 2 ^ nat k else 1 / 2 ^ nat (- k))"

text \<open>For \<open>a > 0\<close>, the exponent \<open>e\<close> with \<open>2\<^sup>e \<le> a < 2\<^sup>e\<^sup>+\<^sup>1\<close>.\<close>

definition floor_log2 :: "rat \<Rightarrow> int" where
  "floor_log2 a =
     (let (n, d) = quotient_of a;
          k = int (bit_length n) - int (bit_length d)
      in if pow2 k \<le> a then k else k - 1)"

text \<open>The nearest integer, a tie going to the even one.\<close>

definition round_half_even :: "rat \<Rightarrow> int" where
  "round_half_even m =
     (let f = \<lfloor>m\<rfloor>; r = m - of_int f
      in if r < 1 / 2 then f else if r > 1 / 2 then f + 1 else if even f then f else f + 1)"

text \<open>
  The double nearest to an exact value (IEEE 754 round-to-nearest, ties to even): 53
  significant bits, the smallest exponent -1022 (below it the spacing stays
  \<open>2\<^sup>-\<^sup>1\<^sup>0\<^sup>7\<^sup>4\<close>), and an infinity when the rounded value reaches \<open>2\<^sup>1\<^sup>0\<^sup>2\<^sup>4\<close>.
\<close>

definition round_double :: "rat \<Rightarrow> pyfloat" where
  "round_double q =
     (if q = 0 then Fin 0
      else (let a = \<bar>q\<bar>;
                e = max (floor_log2 a) (- 1022);
                u = pow2 (e - 52);
                r = of_int (round_half_even (a / u)) * u
            in if r \<ge> pow2 1024 then (if q > 0 then PInf else NInf)
               else Fin (if q > 0 then r else - r)))"

text \<open>Addition, subtraction and \<^verbatim>\<open>>=\<close> of floats.\<close>

fun fadd :: "pyfloat \<Rightarrow> pyfloat \<Rightarrow> pyfloat" where
  "fadd (Fin a) (Fin b) = round_double (a + b)"
| "fadd NaN y = NaN"
| "fadd x NaN = NaN"
| "fadd PInf NInf = NaN"
| "fadd NInf PInf = NaN"
| "fadd PInf y = PInf"
| "fadd x PInf = PInf"
| "fadd NInf y = NInf"
| "fadd x NInf = NInf"

fun fneg :: "pyfloat \<Rightarrow> pyfloat" where
  "fneg (Fin a) = Fin (- a)"
| "fneg PInf = NInf"
| "fneg NInf = PInf"
| "fneg NaN = NaN"

definition fsub :: "pyfloat \<Rightarrow> pyfloat \<Rightarrow> pyfloat" where
  "fsub x y = fadd x (fneg y)"

fun fge :: "pyfloat \<Rightarrow> pyfloat \<Rightarrow> bool" where
  "fge NaN y = False"
| "fge x NaN = False"
| "fge PInf y = True"
| "fge x NInf = True"
| "fge (Fin a) (Fin b) = (a \<ge> b)"
| "fge x y = False"

text \<open>
  \<^verbatim>\<open>float(i)\<close> for an integer: the nearest double, and \<^verbatim>\<open>OverflowError\<close> when there
  is none.
\<close>

definition float_of_int :: "int \<Rightarrow> error + pyfloat" where
  "float_of_int i =
     (case round_double (of_int i) of Fin v \<Rightarrow> Inr (Fin v) | _ \<Rightarrow> Inl OverflowError)"

text \<open>
  \<^verbatim>\<open>float(v)\<close>. The parser of float literals is the interpreter's and is the parameter
  \<open>float_of_str\<close>, \<open>None\<close> where it raises \<^verbatim>\<open>ValueError\<close>.
\<close>

fun py_float :: "(string \<Rightarrow> pyfloat option) \<Rightarrow> json \<Rightarrow> error + pyfloat" where
  "py_float float_of_str (JInt i) = float_of_int i"
| "py_float float_of_str (JFloat x) = Inr x"
| "py_float float_of_str (JBool b) = Inr (Fin (if b then 1 else 0))"
| "py_float float_of_str (JStr s) =
     (case float_of_str s of None \<Rightarrow> Inl ValueError | Some x \<Rightarrow> Inr x)"
| "py_float float_of_str _ = Inl TypeError"

section \<open>The client: token lifecycle\<close>

text \<open>
  What \<^verbatim>\<open>requests\<close> gives back for one call: an exception of the transport
  (\<^verbatim>\<open>RequestException\<close>: connection refused, timeout, ...) or a response.
  \<open>json_result\<close> is what \<^verbatim>\<open>response.json()\<close> returns, \<open>None\<close> where it raises
  \<^verbatim>\<open>JSONDecodeError\<close> (a \<^verbatim>\<open>ValueError\<close> and, in current versions of the library, a
  \<^verbatim>\<open>RequestException\<close> as well).
\<close>

record response =
  status_code :: int
  text' :: string
  json_result :: "json option"
  content :: string

datatype transport = Raised | Responded response

text \<open>\<^verbatim>\<open>response.raise_for_status()\<close> raises \<^verbatim>\<open>HTTPError\<close> for a 4xx or 5xx status.\<close>

definition raises_for_status :: "response \<Rightarrow> bool" where
  "raises_for_status r = (400 \<le> status_code r \<and> status_code r < 600)"

text \<open>
  The mutable fields of \<^verbatim>\<open>InvestecClient\<close> (\<^verbatim>\<open>_access_token\<close>, \<^verbatim>\<open>_token_expires_at\<close>)
  and the API key, which goes into every header set. A reading of the clock
  (\<^verbatim>\<open>time.time()\<close>, seconds since the epoch) is a finite float and is given by its
  value.
\<close>

record client =
  api_key :: string
  access_token :: json
  token_expires_at :: "pyfloat option"

text \<open>
  \<^verbatim>\<open>_authenticate\<close> at time \<open>now\<close> (its \<^verbatim>\<open>time.time()\<close>), given the outcome of the
  token request. The token is stored before \<^verbatim>\<open>expires_in\<close> is read, and the expiry
  before the token is tested; \<^verbatim>\<open>ValueError\<close> is caught and re-raised as
  \<^verbatim>\<open>InvestecAuthError\<close>; \<^verbatim>\<open>TypeError\<close>, \<^verbatim>\<open>OverflowError\<close> and
  \<^verbatim>\<open>AttributeError\<close> are not caught. The expiry is
  \<^verbatim>\<open>time.time() + float(expires_in) - 60\<close> in float arithmetic, from left to right.
\<close>

definition authenticate ::
  "(string \<Rightarrow> pyfloat option) \<Rightarrow> client \<Rightarrow> rat \<Rightarrow> transport \<Rightarrow> (error + unit) \<times> client" where
  "authenticate float_of_str self now outcome =
     (case outcome of
        Raised \<Rightarrow> (Inl InvestecAuthError, self)
      | Responded response \<Rightarrow>
          if raises_for_status response then (Inl InvestecAuthError, self)
          else (case json_result response of
            None \<Rightarrow> (Inl InvestecAuthError, self)
          | Some auth_data \<Rightarrow>
              (case py_get auth_data ''access_token'' JNull of
                 Inl e \<Rightarrow> (Inl e, self)
               | Inr tok \<Rightarrow>
                  (let self1 = self\<lparr> access_token := tok \<rparr> in
                   case py_get auth_data ''expires_in'' (JInt 1799) of
                     Inl e \<Rightarrow> (Inl e, self1)
                   | Inr expires_in \<Rightarrow>
                      (case py_float float_of_str expires_in of
                         Inl ValueError \<Rightarrow> (Inl InvestecAuthError, self1)
                       | Inl e \<Rightarrow> (Inl e, self1)
                       | Inr x \<Rightarrow>
                          (let self2 = self1\<lparr> token_expires_at :=
                                         Some (fsub (fadd (Fin now) x) (Fin 60)) \<rparr> in
                           if \<not> py_bool tok then (Inl InvestecAuthError, self2)
                           else (Inr (), self2)))))))"

text \<open>
  The test of \<^verbatim>\<open>_get_auth_headers\<close>:
  \<^verbatim>\<open>not self._access_token or not self._token_expires_at or time.time() >= self._token_expires_at\<close>.
\<close>

definition needs_authentication :: "client \<Rightarrow> rat \<Rightarrow> bool" where
  "needs_authentication self now =
     (\<not> py_bool (access_token self) \<or>
      (case token_expires_at self of
         None \<Rightarrow> True
       | Some e \<Rightarrow> e = Fin 0 \<or> fge (Fin now) e))"

record headers =
  Authorization :: string
  x_api_key :: string
  Accept :: string

text \<open>
  \<^verbatim>\<open>_get_auth_headers\<close>, called at time \<open>now\<close>; \<open>auth_now\<close> and \<open>auth_outcome\<close> are the
  time and the outcome of the token request, used only when one is made.
\<close>

definition get_auth_headers ::
  "(json \<Rightarrow> string) \<Rightarrow> (string \<Rightarrow> pyfloat option) \<Rightarrow> client \<Rightarrow> rat \<Rightarrow> rat \<Rightarrow> transport
     \<Rightarrow> (error + headers) \<times> client" where
  "get_auth_headers repr float_of_str self now auth_now auth_outcome =
     (case (if needs_authentication self now
            then authenticate float_of_str self auth_now auth_outcome
            else (Inr (), self)) of
        (Inl e, self') \<Rightarrow> (Inl e, self')
      | (Inr _, self') \<Rightarrow>
          (Inr \<lparr> Authorization = ''Bearer '' @ py_str repr (access_token self'),
                 x_api_key = api_key self',
                 Accept = ''application/json'' \<rparr>, self'))"

section \<open>The client: requests and error mapping\<close>

text \<open>
  The \<^verbatim>\<open>except requests.exceptions.HTTPError\<close> handler shared by \<^verbatim>\<open>_request\<close> and
  \<^verbatim>\<open>get_document\<close>: the body is parsed when there is one, and a body that does not
  parse is dropped.
\<close>

definition http_error :: "response \<Rightarrow> error" where
  "http_error r =
     InvestecRequestError (status_code r)
       (if text' r \<noteq> [] then (case json_result r of None \<Rightarrow> JNull | Some j \<Rightarrow> j) else JNull)"

text \<open>
  \<^verbatim>\<open>_request\<close>, given the outcome of the call itself. The request that goes out (URL,
  headers, body) is not part of the result and is not modelled.
\<close>

definition request ::
  "(json \<Rightarrow> string) \<Rightarrow> (string \<Rightarrow> pyfloat option) \<Rightarrow> client \<Rightarrow> rat \<Rightarrow> rat \<Rightarrow> transport
     \<Rightarrow> transport \<Rightarrow> (error + json) \<times> client" where
  "request repr float_of_str self now auth_now auth_outcome outcome =
     (case get_auth_headers repr float_of_str self now auth_now auth_outcome of
        (Inl e, self') \<Rightarrow> (Inl e, self')
      | (Inr hdrs, self') \<Rightarrow>
          (case outcome of
             Raised \<Rightarrow> Inl InvestecAPIError
           | Responded response \<Rightarrow>
               if status_code response = 429
               then (if text' response \<noteq> []
                     then (case json_result response of
                             None \<Rightarrow> Inl InvestecAPIError
                           | Some j \<Rightarrow> Inl (InvestecRateLimitError (status_code response) j))
                     else Inl (InvestecRateLimitError (status_code response) JNull))
               else if raises_for_status response then Inl (http_error response)
               else if text' response = [] then Inr (JObj [])
               else (case json_result response of
                       None \<Rightarrow> Inl InvestecAPIError
                     | Some j \<Rightarrow> Inr j),
           self'))"

text \<open>\<^verbatim>\<open>get_document\<close>: the raw content on success; no test for status 429.\<close>

definition get_document ::
  "(json \<Rightarrow> string) \<Rightarrow> (string \<Rightarrow> pyfloat option) \<Rightarrow> client \<Rightarrow> rat \<Rightarrow> rat \<Rightarrow> transport
     \<Rightarrow> transport \<Rightarrow> (error + string) \<times> client" where
  "get_document repr float_of_str self now auth_now auth_outcome outcome =
     (case get_auth_headers repr float_of_str self now auth_now auth_outcome of
        (Inl e, self') \<Rightarrow> (Inl e, self')
      | (Inr hdrs, self') \<Rightarrow>
          (case outcome of
             Raised \<Rightarrow> Inl InvestecAPIError
           | Responded response \<Rightarrow>
               if raises_for_status response then Inl (http_error response)
               else Inr (content response),
           self'))"

text \<open>The property "is a non-empty string" of a stored token.\<close>

fun is_nonempty_str :: "json \<Rightarrow> bool" where
  "is_nonempty_str (JStr s) = (s \<noteq> [])"
| "is_nonempty_str _ = False"

section \<open>Decimals\<close>

text \<open>
  A \<^verbatim>\<open>decimal.Decimal\<close>: sign, coefficient and exponent of a finite number (the value is
  \<open>(-1)\<^sup>s * c * 10\<^sup>e\<close>; Python keeps the coefficient as a digit string with no leading
  zero, that is, as a natural number), an infinity, or a quiet or signalling NaN with its
  diagnostic digits (0 for none).
\<close>

datatype decimal =
    DFinite bool nat int
  | DInfinity bool
  | DNaN bool bool nat

definition sign_str :: "bool \<Rightarrow> string" where
  "sign_str s = (if s then ''-'' else [])"

text \<open>\<^verbatim>\<open>"%+d" % i\<close>.\<close>

definition plus_d :: "int \<Rightarrow> string" where
  "plus_d i = (if i < 0 then CHR ''-'' # str_nat (nat (- i)) else CHR ''+'' # str_nat (nat i))"

text \<open>
  \<^verbatim>\<open>Decimal.__str__\<close> (scientific string, default context: capital \<^verbatim>\<open>E\<close>).
\<close>

definition decimal_str :: "decimal \<Rightarrow> string" where
  "decimal_str d =
     (case d of
        DInfinity s \<Rightarrow> sign_str s @ ''Infinity''
      | DNaN s signal diag \<Rightarrow>
          sign_str s @ (if signal then ''sNaN'' else ''NaN'') @ (if diag = 0 then [] else str_nat diag)
      | DFinite s c e \<Rightarrow>
          (let digits = str_nat c;
               n = int (length digits);
               leftdigits = e + n;
               dotplace = (if e \<le> 0 \<and> leftdigits > - 6 then leftdigits else 1);
               intpart =
                 (if dotplace \<le> 0 then ''0''
                  else if dotplace \<ge> n then digits @ replicate (nat (dotplace - n)) CHR ''0''
                  else take (nat dotplace) digits);
               fracpart =
                 (if dotplace \<le> 0 then CHR ''.'' # replicate (nat (- dotplace)) CHR ''0'' @ digits
                  else if dotplace \<ge> n then []
                  else CHR ''.'' # drop (nat dotplace) digits);
               expo = (if leftdigits = dotplace then [] else CHR ''E'' # plus_d (leftdigits - dotplace))
           in sign_str s @ intpart @ fracpart @ expo))"

definition is_digit :: "char \<Rightarrow> bool" where
  "is_digit c = (c \<in> set ''0123456789'')"

definition digit_val :: "char \<Rightarrow> nat" where
  "digit_val c = of_char c - 48"

text \<open>\<^verbatim>\<open>int(ds)\<close> for a string of digits (0 for the empty string, where the code writes \<^verbatim>\<open>or '0'\<close>).\<close>

definition nat_of_digits :: "string \<Rightarrow> nat" where
  "nat_of_digits ds = foldl (\<lambda>n c. 10 * n + digit_val c) 0 ds"

text \<open>ASCII white space, as \<^verbatim>\<open>str.strip()\<close> removes it from both ends.\<close>

definition is_space :: "char \<Rightarrow> bool" where
  "is_space c = ((of_char c :: nat) \<in> {9, 10, 11, 12, 13, 28, 29, 30, 31, 32})"

definition strip :: "string \<Rightarrow> string" where
  "strip s = rev (dropWhile is_space (rev (dropWhile is_space s)))"

text \<open>The group \<^verbatim>\<open>[-+]?\d+\<close> up to the end of the string, as an integer.\<close>

definition signed_digits :: "string \<Rightarrow> int option" where
  "signed_digits s =
     (let (neg, ds) = (case s of
                         c # t \<Rightarrow> if c = CHR ''-'' then (True, t)
                                  else if c = CHR ''+'' then (False, t) else (False, s)
                       | [] \<Rightarrow> (False, s))
      in if ds \<noteq> [] \<and> list_all is_digit ds
         then Some (if neg then - int (nat_of_digits ds) else int (nat_of_digits ds))
         else None)"

text \<open>
  The first alternative of the parser's regular expression, a number: digits, an optional
  point with digits, an optional exponent, and nothing after; at least one digit before
  the exponent. The result is coefficient and exponent.
\<close>

definition parse_number :: "string \<Rightarrow> (nat \<times> int) option" where
  "parse_number r =
     (let intpart = takeWhile is_digit r;
          r1 = dropWhile is_digit r;
          (fracpart, r2) = (case r1 of
                              c # t \<Rightarrow> if c = CHR ''.''
                                       then (takeWhile is_digit t, dropWhile is_digit t)
                                       else ([], r1)
                            | [] \<Rightarrow> ([], r1))
      in if intpart = [] \<and> fracpart = [] then None
         else (case (case r2 of
                       [] \<Rightarrow> Some 0
                     | c # t \<Rightarrow> if c = CHR ''e'' \<or> c = CHR ''E'' then signed_digits t else None) of
                 None \<Rightarrow> None
               | Some expo \<Rightarrow>
                   Some (nat_of_digits (intpart @ fracpart), expo - int (length fracpart))))"

text \<open>
  The other alternatives, matched without regard to case: \<^verbatim>\<open>Inf\<close>, \<^verbatim>\<open>Infinity\<close>,
  \<^verbatim>\<open>NaN\<close> or \<^verbatim>\<open>sNaN\<close> with optional diagnostic digits.
\<close>

definition parse_special :: "bool \<Rightarrow> string \<Rightarrow> decimal option" where
  "parse_special s r =
     (let l = lower r in
      if l = ''inf'' \<or> l = ''infinity'' then Some (DInfinity s)
      else if take 3 l = ''nan'' \<and> list_all is_digit (drop 3 l)
           then Some (DNaN s False (nat_of_digits (drop 3 l)))
      else if take 4 l = ''snan'' \<and> list_all is_digit (drop 4 l)
           then Some (DNaN s True (nat_of_digits (drop 4 l)))
      else None)"

text \<open>
  \<^verbatim>\<open>Decimal(s)\<close> for a string: white space stripped, underscores removed, then the
  regular expression; \<open>None\<close> where the constructor raises
  \<^verbatim>\<open>decimal.InvalidOperation\<close> (the default context traps it). Strings are ASCII
  here: the Unicode white space and digits that the constructor takes as well, and the
  bound that the C implementation puts on the exponent, are not modelled.
\<close>

definition Decimal :: "string \<Rightarrow> decimal option" where
  "Decimal v =
     (let t = filter (\<lambda>c. c \<noteq> CHR ''_'') (strip v);
          (s, r) = (case t of
                      c # u \<Rightarrow> if c = CHR ''-'' then (True, u)
                               else if c = CHR ''+'' then (False, u) else (False, t)
                    | [] \<Rightarrow> (False, t))
      in case parse_number r of
           Some (c, e) \<Rightarrow> Some (DFinite s c e)
         | None \<Rightarrow> parse_special s r)"

text \<open>\<^verbatim>\<open>Decimal(str(v))\<close>, as the models convert their numeric fields.\<close>

definition Decimal_of :: "(json \<Rightarrow> string) \<Rightarrow> json \<Rightarrow> error + decimal" where
  "Decimal_of repr v =
     (case Decimal (py_str repr v) of None \<Rightarrow> Inl InvalidOperation | Some d \<Rightarrow> Inr d)"

text \<open>A character that neither \<^verbatim>\<open>strip()\<close> nor the removal of underscores touches.\<close>

definition plain_char :: "char \<Rightarrow> bool" where
  "plain_char c = (\<not> is_space c \<and> c \<noteq> CHR ''_'')"

section \<open>Models: transfer and payment items\<close>

record TransferItem =
  beneficiary_account_id :: json
  amount :: decimal
  my_reference :: json
  their_reference :: json

definition TransferItem_to_dict :: "TransferItem \<Rightarrow> json" where
  "TransferItem_to_dict self =
     JObj [(''beneficiaryAccountId'', TransferItem.beneficiary_account_id self),
           (''amount'', JStr (decimal_str (TransferItem.amount self))),
           (''myReference'', TransferItem.my_reference self),
           (''theirReference'', TransferItem.their_reference self)]"

definition TransferItem_from_dict :: "(json \<Rightarrow> string) \<Rightarrow> json \<Rightarrow> error + TransferItem" where
  "TransferItem_from_dict repr data =
     (case data of
        JObj d \<Rightarrow>
          ebind (Decimal_of repr (dict_get d ''amount'' (JInt 0))) (\<lambda>a.
            Inr \<lparr> TransferItem.beneficiary_account_id = dict_get d ''beneficiaryAccountId'' (JStr ''''),
                  TransferItem.amount = a,
                  TransferItem.my_reference = dict_get d ''myReference'' (JStr ''''),
                  TransferItem.their_reference = dict_get d ''theirReference'' (JStr '''') \<rparr>)
      | _ \<Rightarrow> Inl AttributeError)"

record BeneficiaryPaymentItem =
  beneficiary_id :: json
  amount :: decimal
  my_reference :: json
  their_reference :: json
  authoriser_a_id :: json
  authoriser_b_id :: json
  auth_period_id :: json
  faster_payment :: json

definition BeneficiaryPaymentItem_from_dict ::
  "(json \<Rightarrow> string) \<Rightarrow> json \<Rightarrow> error + BeneficiaryPaymentItem" where
  "BeneficiaryPaymentItem_from_dict repr data =
     (case data of
        JObj d \<Rightarrow>
          ebind (Decimal_of repr (dict_get d ''amount'' (JInt 0))) (\<lambda>a.
            Inr \<lparr> BeneficiaryPaymentItem.beneficiary_id = dict_get d ''beneficiaryId'' (JStr ''''),
                  BeneficiaryPaymentItem.amount = a,
                  BeneficiaryPaymentItem.my_reference = dict_get d ''myReference'' (JStr ''''),
                  BeneficiaryPaymentItem.their_reference = dict_get d ''theirReference'' (JStr ''''),
                  BeneficiaryPaymentItem.authoriser_a_id = dict_get d ''authoriserAId'' JNull,
                  BeneficiaryPaymentItem.authoriser_b_id = dict_get d ''authoriserBId'' JNull,
                  BeneficiaryPaymentItem.auth_period_id = dict_get d ''authPeriodId'' JNull,
                  BeneficiaryPaymentItem.faster_payment = dict_get d ''fasterPayment'' JNull \<rparr>)
      | _ \<Rightarrow> Inl AttributeError)"

section \<open>Models: accounts and balances\<close>

record Account =
  account_id :: json
  account_number :: json
  account_name :: json
  reference_name :: json
  product_name :: json
  kyc_compliant :: json
  profile_id :: json
  profile_name :: json

definition Account_from_dict :: "json \<Rightarrow> error + Account" where
  "Account_from_dict data =
     (case data of
        JObj d \<Rightarrow> Inr \<lparr>
          Account.account_id = dict_get d ''accountId'' (JStr ''''),
          Account.account_number = dict_get d ''accountNumber'' (JStr ''''),
          Account.account_name = dict_get d ''accountName'' (JStr ''''),
          Account.reference_name = dict_get d ''referenceName'' (JStr ''''),
          Account.product_name = dict_get d ''productName'' (JStr ''''),
          Account.kyc_compliant = dict_get d ''kycCompliant'' (JBool False),
          Account.profile_id = dict_get d ''profileId'' (JStr ''''),
          Account.profile_name = dict_get d ''profileName'' (JStr '''') \<rparr>
      | _ \<Rightarrow> Inl AttributeError)"

record AccountBalance =
  account_id :: json
  current_balance :: decimal
  available_balance :: decimal
  budget_balance :: decimal
  straight_balance :: decimal
  cash_balance :: decimal
  currency :: json

definition AccountBalance_from_dict :: "(json \<Rightarrow> string) \<Rightarrow> json \<Rightarrow> error + AccountBalance" where
  "AccountBalance_from_dict repr data =
     (case data of
        JObj d \<Rightarrow>
          ebind (Decimal_of repr (dict_get d ''currentBalance'' (JInt 0))) (\<lambda>cur.
          ebind (Decimal_of repr (dict_get d ''availableBalance'' (JInt 0))) (\<lambda>avail.
          ebind (Decimal_of repr (dict_get d ''budgetBalance'' (JInt 0))) (\<lambda>budget.
          ebind (Decimal_of repr (dict_get d ''straightBalance'' (JInt 0))) (\<lambda>straight.
          ebind (Decimal_of repr (dict_get d ''cashBalance'' (JInt 0))) (\<lambda>cash.
            Inr \<lparr> AccountBalance.account_id = dict_get d ''accountId'' (JStr ''''),
                  current_balance = cur,
                  available_balance = avail,
                  budget_balance = budget,
                  straight_balance = straight,
                  cash_balance = cash,
                  currency = dict_get d ''currency'' (JStr ''ZAR'') \<rparr>)))))
      | _ \<Rightarrow> Inl AttributeError)"

section \<open>Models: transactions\<close>

datatype TransactionType = CREDIT | DEBIT

datatype TransactionStatus = POSTED | PENDING

text \<open>
  What \<^verbatim>\<open>data.get("type", TransactionType.DEBIT)\<close> can be: the enumeration member given
  as default, or the wire value as it came, of any JSON type.
\<close>

datatype 'a enum_field = Member 'a | Raw json

text \<open>
  The two enumerations derive from \<^verbatim>\<open>str\<close>, so a member compares equal to the string of
  its name. A field value counts as a member of the enumeration when it is a member or
  compares equal to one.
\<close>

fun is_TransactionType :: "TransactionType enum_field \<Rightarrow> bool" where
  "is_TransactionType (Member m) = True"
| "is_TransactionType (Raw (JStr s)) = (s = ''CREDIT'' \<or> s = ''DEBIT'')"
| "is_TransactionType (Raw _) = False"

fun is_TransactionStatus :: "TransactionStatus enum_field \<Rightarrow> bool" where
  "is_TransactionStatus (Member m) = True"
| "is_TransactionStatus (Raw (JStr s)) = (s = ''POSTED'' \<or> s = ''PENDING'')"
| "is_TransactionStatus (Raw _) = False"

definition get_enum :: "(string \<times> json) list \<Rightarrow> string \<Rightarrow> 'a \<Rightarrow> 'a enum_field" where
  "get_enum d k dflt = (case map_of d k of None \<Rightarrow> Member dflt | Some v \<Rightarrow> Raw v)"

text \<open>
  A date field:
  \<^verbatim>\<open>if k in data and data[k]: try: x = fromisoformat(data[k]) except (ValueError, TypeError): pass\<close>.
  The library's \<^verbatim>\<open>fromisoformat\<close> is the parameter of that name, \<open>None\<close> where it raises
  \<^verbatim>\<open>ValueError\<close>; on a value that is not a string it raises \<^verbatim>\<open>TypeError\<close>. The test
  itself stands outside the \<^verbatim>\<open>try\<close>.
\<close>

definition date_field :: "(string \<Rightarrow> 'dt option) \<Rightarrow> json \<Rightarrow> string \<Rightarrow> error + 'dt option" where
  "date_field fromisoformat data k =
     ebind (py_contains k data) (\<lambda>has.
       if has
       then ebind (py_getitem data k) (\<lambda>v.
              if py_bool v then Inr (case v of JStr s \<Rightarrow> fromisoformat s | _ \<Rightarrow> None) else Inr None)
       else Inr None)"

record 'dt Transaction =
  account_id :: json
  type' :: "TransactionType enum_field"
  transaction_type :: json
  status :: "TransactionStatus enum_field"
  description :: json
  card_number :: json
  posted_order :: json
  posting_date :: "'dt option"
  value_date :: "'dt option"
  action_date :: "'dt option"
  transaction_date :: "'dt option"
  amount :: decimal
  running_balance :: "decimal option"
  uuid :: json

definition Transaction_from_dict ::
  "(json \<Rightarrow> string) \<Rightarrow> (string \<Rightarrow> 'dt option) \<Rightarrow> json \<Rightarrow> error + 'dt Transaction" where
  "Transaction_from_dict repr fromisoformat data =
     ebind (date_field fromisoformat data ''postingDate'') (\<lambda>posting.
     ebind (date_field fromisoformat data ''valueDate'') (\<lambda>value.
     ebind (date_field fromisoformat data ''actionDate'') (\<lambda>action.
     ebind (date_field fromisoformat data ''transactionDate'') (\<lambda>trans.
     ebind (py_get data ''amount'' (JInt 0)) (\<lambda>a.
     ebind (Decimal_of repr a) (\<lambda>amt.
     ebind (py_contains ''runningBalance'' data) (\<lambda>has.
     ebind (if has
            then ebind (py_getitem data ''runningBalance'') (\<lambda>rb.
                   if rb \<noteq> JNull
                   then ebind (Decimal_of repr rb) (\<lambda>x. Inr (Some x))
                   else Inr None)
            else Inr None) (\<lambda>running.
       (case data of
          JObj d \<Rightarrow> Inr \<lparr>
            Transaction.account_id = dict_get d ''accountId'' (JStr ''''),
            type' = get_enum d ''type'' DEBIT,
            transaction_type = dict_get d ''transactionType'' JNull,
            status = get_enum d ''status'' POSTED,
            description = dict_get d ''description'' (JStr ''''),
            card_number = dict_get d ''cardNumber'' JNull,
            posted_order = dict_get d ''postedOrder'' JNull,
            posting_date = posting,
            value_date = value,
            action_date = action,
            transaction_date = trans,
            amount = amt,
            running_balance = running,
            uuid = dict_get d ''uuid'' JNull \<rparr>
        | _ \<Rightarrow> Inl AttributeError)))))))))"

record 'dt PendingTransaction =
  account_id :: json
  type' :: "TransactionType enum_field"
  status :: TransactionStatus
  description :: json
  transaction_date :: "'dt option"
  amount :: decimal

definition PendingTransaction_from_dict ::
  "(json \<Rightarrow> string) \<Rightarrow> (string \<Rightarrow> 'dt option) \<Rightarrow> json \<Rightarrow> error + 'dt PendingTransaction" where
  "PendingTransaction_from_dict repr fromisoformat data =
     ebind (date_field fromisoformat data ''transactionDate'') (\<lambda>trans.
     ebind (py_get data ''amount'' (JInt 0)) (\<lambda>a.
     ebind (Decimal_of repr a) (\<lambda>amt.
       (case data of
          JObj d \<Rightarrow> Inr \<lparr>
            PendingTransaction.account_id = dict_get d ''accountId'' (JStr ''''),
            PendingTransaction.type' = get_enum d ''type'' DEBIT,
            PendingTransaction.status = PENDING,
            PendingTransaction.description = dict_get d ''description'' (JStr ''''),
            PendingTransaction.transaction_date = trans,
            PendingTransaction.amount = amt \<rparr>
        | _ \<Rightarrow> Inl AttributeError))))"

section \<open>Models: beneficiaries, profiles, documents\<close>

record Beneficiary =
  beneficiary_id :: json
  account_number :: json
  code :: json
  bank :: json
  beneficiary_name :: json
  last_payment_amount :: json
  last_payment_date :: json
  cell_no :: json
  email_address :: json
  name :: json
  reference_account_number :: json
  reference_name :: json
  category_id :: json
  profile_id :: json
  faster_payment_allowed :: json
  beneficiary_type :: json
  approved_beneficiary_category :: json

definition Beneficiary_from_dict :: "json \<Rightarrow> error + Beneficiary" where
  "Beneficiary_from_dict data =
     (case data of
        JObj d \<Rightarrow> Inr \<lparr>
          Beneficiary.beneficiary_id = dict_get d ''beneficiaryId'' (JStr ''''),
          Beneficiary.account_number = dict_get d ''accountNumber'' JNull,
          Beneficiary.code = dict_get d ''code'' JNull,
          Beneficiary.bank = dict_get d ''bank'' JNull,
          Beneficiary.beneficiary_name = dict_get d ''beneficiaryName'' JNull,
          Beneficiary.last_payment_amount = dict_get d ''lastPaymentAmount'' JNull,
          Beneficiary.last_payment_date = dict_get d ''lastPaymentDate'' JNull,
          Beneficiary.cell_no = dict_get d ''cellNo'' JNull,
          Beneficiary.email_address = dict_get d ''emailAddress'' JNull,
          Beneficiary.name = dict_get d ''name'' JNull,
          Beneficiary.reference_account_number = dict_get d ''referenceAccountNumber'' JNull,
          Beneficiary.reference_name = dict_get d ''referenceName'' JNull,
          Beneficiary.category_id = dict_get d ''categoryId'' JNull,
          Beneficiary.profile_id = dict_get d ''profileId'' JNull,
          Beneficiary.faster_payment_allowed = dict_get d ''fasterPaymentAllowed'' (JBool False),
          Beneficiary.beneficiary_type = dict_get d ''beneficiaryType'' JNull,
          Beneficiary.approved_beneficiary_category =
            dict_get d ''approvedBeneficiaryCategory'' JNull \<rparr>
      | _ \<Rightarrow> Inl AttributeError)"

record Profile =
  profile_id :: json
  profile_name :: json
  default_profile :: json

definition Profile_from_dict :: "json \<Rightarrow> error + Profile" where
  "Profile_from_dict data =
     (case data of
        JObj d \<Rightarrow> Inr \<lparr>
          Profile.profile_id = dict_get d ''profileId'' (JStr ''''),
          Profile.profile_name = dict_get d ''profileName'' (JStr ''''),
          Profile.default_profile = dict_get d ''defaultProfile'' (JBool False) \<rparr>
      | _ \<Rightarrow> Inl AttributeError)"

text \<open>
  \<^verbatim>\<open>Document.from_dict\<close>; \<open>today\<close> is \<^verbatim>\<open>date.today()\<close>, taken when the date is
  missing or does not parse.
\<close>

record 'd Document =
  document_type :: json
  document_date :: 'd

definition Document_from_dict ::
  "(string \<Rightarrow> 'd option) \<Rightarrow> 'd \<Rightarrow> json \<Rightarrow> error + 'd Document" where
  "Document_from_dict fromisoformat today data =
     ebind (date_field fromisoformat data ''documentDate'') (\<lambda>doc_date.
     ebind (py_get data ''documentType'' (JStr '''')) (\<lambda>ty.
       Inr \<lparr> document_type = ty,
             document_date = (case doc_date of None \<Rightarrow> today | Some x \<Rightarrow> x) \<rparr>))"

section \<open>The client: operations that return lists\<close>

text \<open>
  Each operation below is the part of the client method that follows
  \<^verbatim>\<open>response = self._request(...)\<close>, as a function of that response.
  Two tests guard the lists:
  \<^verbatim>\<open>"data" in response and key in response["data"]\<close> and
  \<^verbatim>\<open>"data" in response and isinstance(response["data"], list)\<close>.
\<close>

definition data_has :: "json \<Rightarrow> string \<Rightarrow> error + bool" where
  "data_has response k =
     ebind (py_contains ''data'' response) (\<lambda>has.
       if has then ebind (py_getitem response ''data'') (\<lambda>data. py_contains k data)
       else Inr False)"

definition data_is_list :: "json \<Rightarrow> error + bool" where
  "data_is_list response =
     ebind (py_contains ''data'' response) (\<lambda>has.
       if has
       then ebind (py_getitem response ''data'') (\<lambda>data.
              Inr (case data of JArr xs \<Rightarrow> True | _ \<Rightarrow> False))
       else Inr False)"

text \<open>\<^verbatim>\<open>[f(x) for x in response["data"][k]]\<close> and \<^verbatim>\<open>[f(x) for x in response["data"]]\<close>.\<close>

definition each_of_data_key :: "(json \<Rightarrow> error + 'a) \<Rightarrow> json \<Rightarrow> string \<Rightarrow> error + 'a list" where
  "each_of_data_key f response k =
     ebind (py_getitem response ''data'') (\<lambda>data.
     ebind (py_getitem data k) (\<lambda>items.
     ebind (py_iter items) (map_err f)))"

definition each_of_data :: "(json \<Rightarrow> error + 'a) \<Rightarrow> json \<Rightarrow> error + 'a list" where
  "each_of_data f response =
     ebind (py_getitem response ''data'') (\<lambda>data.
     ebind (py_iter data) (map_err f))"

definition get_accounts :: "json \<Rightarrow> error + Account list" where
  "get_accounts response =
     ebind (data_has response ''accounts'') (\<lambda>ok.
       if ok then each_of_data_key Account_from_dict response ''accounts'' else Inr [])"

definition get_account_transactions ::
  "(json \<Rightarrow> string) \<Rightarrow> (string \<Rightarrow> 'dt option) \<Rightarrow> json \<Rightarrow> error + 'dt Transaction list" where
  "get_account_transactions repr fromisoformat response =
     ebind (data_has response ''transactions'') (\<lambda>ok.
       if ok
       then each_of_data_key (Transaction_from_dict repr fromisoformat) response ''transactions''
       else Inr [])"

definition get_account_pending_transactions ::
  "(json \<Rightarrow> string) \<Rightarrow> (string \<Rightarrow> 'dt option) \<Rightarrow> json
     \<Rightarrow> error + 'dt PendingTransaction list" where
  "get_account_pending_transactions repr fromisoformat response =
     ebind (data_has response ''PendingTransaction'') (\<lambda>ok.
       if ok
       then each_of_data_key (PendingTransaction_from_dict repr fromisoformat) response
              ''PendingTransaction''
       else Inr [])"

definition get_beneficiaries :: "json \<Rightarrow> error + Beneficiary list" where
  "get_beneficiaries response =
     ebind (data_is_list response) (\<lambda>ok.
       if ok then each_of_data Beneficiary_from_dict response else Inr [])"

definition get_profiles :: "json \<Rightarrow> error + Profile list" where
  "get_profiles response =
     ebind (data_is_list response) (\<lambda>ok.
       if ok then each_of_data Profile_from_dict response else Inr [])"

definition get_profile_accounts :: "json \<Rightarrow> error + Account list" where
  "get_profile_accounts response =
     ebind (data_is_list response) (\<lambda>ok.
       if ok then each_of_data Account_from_dict response else Inr [])"

definition get_profile_beneficiaries :: "json \<Rightarrow> error + Beneficiary list" where
  "get_profile_beneficiaries response =
     ebind (data_is_list response) (\<lambda>ok.
       if ok then each_of_data Beneficiary_from_dict response else Inr [])"

definition get_documents ::
  "(string \<Rightarrow> 'd option) \<Rightarrow> 'd \<Rightarrow> json \<Rightarrow> error + 'd Document list" where
  "get_documents fromisoformat today response =
     ebind (data_is_list response) (\<lambda>ok.
       if ok then each_of_data (Document_from_dict fromisoformat today) response else Inr [])"

section \<open>Properties\<close>

subsection \<open>Integers that are floats\<close>

lemma bit_length_bounds:
  "0 < i \<Longrightarrow> 2 ^ (bit_length i - 1) \<le> i \<and> i < 2 ^ bit_length i"
proof (induction i rule: bit_length.induct)
  case (1 i)
  show ?case
  proof (cases "i = 1")
    case True
    then show ?thesis by (simp add: bit_length.simps)
  next
    case False
    with "1.prems" have pos: "0 < i div 2" by simp
    define j where "j = i div 2"
    define b where "b = bit_length j"
    have bl: "bit_length i = Suc b"
      using "1.prems" by (subst bit_length.simps) (simp add: b_def j_def)
    have IH: "2 ^ (b - 1) \<le> j" "j < 2 ^ b"
      using "1.IH" "1.prems" pos by (simp_all add: b_def j_def)
    have bpos: "0 < b"
      using pos unfolding b_def j_def by (subst bit_length.simps) simp
    then have pw: "(2::int) ^ b = 2 * 2 ^ (b - 1)"
      by (cases b) simp_all
    have i: "2 * j \<le> i" "i < 2 * j + 2"
      by (simp_all add: j_def)
    have "(2::int) ^ b \<le> i" using IH(1) i(1) pw by linarith
    moreover have "i < 2 * 2 ^ b" using IH(2) i(2) by linarith
    ultimately show ?thesis by (simp add: bl)
  qed
qed

lemma floor_log2_of_int:
  assumes "0 < i"
  shows "floor_log2 (of_int i) = int (bit_length i) - 1"
proof -
  have one: "bit_length 1 = 1" by (simp add: bit_length.simps)
  have pos: "0 < bit_length i"
    using assms by (subst bit_length.simps) simp
  have "(2::int) ^ (bit_length i - 1) \<le> i"
    using bit_length_bounds [OF assms] by simp
  then have "(of_int ((2::int) ^ (bit_length i - 1)) :: rat) \<le> of_int i"
    by (simp only: of_int_le_iff)
  then have "pow2 (int (bit_length i) - 1) \<le> of_int i"
    using pos by (simp add: pow2_def nat_diff_distrib')
  then show ?thesis
    by (simp add: floor_log2_def one)
qed

lemma round_half_even_of_int: "round_half_even (of_int k) = k"
  by (simp add: round_half_even_def)

lemma pow2_1024_big: "(2::rat) ^ 64 \<le> pow2 1024"
proof -
  have "(0::int) \<le> 1024" by simp
  then have "pow2 1024 = 2 ^ nat 1024" unfolding pow2_def by (rule if_P)
  moreover have "(64::nat) \<le> nat 1024" by simp
  then have "(2::rat) ^ 64 \<le> 2 ^ nat 1024" by (rule power_increasing) simp
  ultimately show ?thesis by (simp only:)
qed

lemma no_overflow: "x < 2 ^ 64 \<Longrightarrow> \<not> pow2 1024 \<le> x"
  using pow2_1024_big by linarith

lemma round_double_of_int:
  assumes "0 < i" and "i \<le> 2 ^ 53"
  shows "round_double (of_int i) = Fin (of_int i)"
proof -
  define b where "b = bit_length i"
  have bnd: "(2::int) ^ (b - 1) \<le> i" "i < 2 ^ b"
    using bit_length_bounds [OF assms(1)] by (simp_all add: b_def)
  have bpos: "0 < b"
    using assms(1) unfolding b_def by (subst bit_length.simps) simp
  have "(2::int) ^ (b - 1) \<le> 2 ^ 53" using bnd(1) assms(2) by linarith
  then have b54: "b - 1 \<le> 53"
    using power_increasing_iff [of "2::int" "b - 1" 53] by simp
  have fl: "floor_log2 (of_int i) = int b - 1"
    using floor_log2_of_int [OF assms(1)] by (simp add: b_def)
  have e: "max (floor_log2 (of_int i)) (- 1022) = int b - 1"
    using fl bpos by simp
  have small: "(of_int i :: rat) < 2 ^ 64"
  proof -
    have "i < 2 ^ 64" using assms(2) by simp
    then have "(of_int i :: rat) < of_int (2 ^ 64)" by (simp only: of_int_less_iff)
    then show ?thesis by simp
  qed
  have val: "of_int (round_half_even (of_int i / pow2 (int b - 1 - 52))) * pow2 (int b - 1 - 52)
               = (of_int i :: rat)"
  proof (cases "b - 1 = 53")
    case True
    then have "i = 2 ^ 53" using bnd(1) assms(2) by simp
    moreover have "int b - 1 - 52 = 1" using True bpos by linarith
    moreover have "round_half_even (9007199254740992 / 2) = 4503599627370496"
      using round_half_even_of_int [of 4503599627370496] by simp
    ultimately show ?thesis by (simp add: pow2_def)
  next
    case False
    with b54 have le: "b - 1 \<le> 52" by simp
    define k where "k = 52 - (b - 1)"
    have ex: "int b - 1 - 52 = - int k" using le bpos by (simp add: k_def)
    have p: "pow2 (- int k) = 1 / 2 ^ k" by (simp add: pow2_def)
    have "of_int i / pow2 (- int k) = (of_int (i * 2 ^ k) :: rat)"
      by (simp add: p)
    then have "round_half_even (of_int i / pow2 (- int k)) = i * 2 ^ k"
      by (simp only: round_half_even_of_int)
    then show ?thesis by (simp add: ex p)
  qed
  have ipos: "(of_int i :: rat) > 0" "(of_int i :: rat) \<noteq> 0" "\<bar>of_int i :: rat\<bar> = of_int i"
    using assms(1) by simp_all
  show ?thesis
    unfolding round_double_def Let_def ipos(3) e val
    using ipos no_overflow [OF small] by simp
qed

lemma round_double_numeral:
  "(numeral n :: int) \<le> 2 ^ 53 \<Longrightarrow> round_double (numeral n) = Fin (numeral n)"
  using round_double_of_int [of "numeral n"] by simp

lemma round_double_zero: "round_double 0 = Fin 0"
  by (simp add: round_double_def)

lemma round_double_one: "round_double 1 = Fin 1"
  using round_double_of_int [of 1] by simp

lemma bit_length_big: "bit_length 9007199254740993 = 54"
  by (simp add: bit_length.simps)

lemma floor_half_big: "\<lfloor>(9007199254740993 :: rat) / 2\<rfloor> = 4503599627370496"
  using floor_divide_of_int_eq [of 9007199254740993 2, where ?'a = rat] by simp

lemma round_double_big: "round_double 9007199254740993 = Fin 9007199254740992"
proof -
  have fl: "floor_log2 9007199254740993 = 53"
    using floor_log2_of_int [of 9007199254740993] by (simp add: bit_length_big)
  have rhe: "round_half_even (9007199254740993 / 2) = 4503599627370496"
    by (simp add: round_half_even_def floor_half_big)
  have small: "(9007199254740992 :: rat) < 2 ^ 64" by simp
  show ?thesis
    unfolding round_double_def Let_def
    using no_overflow [OF small] by (simp add: fl pow2_def rhe)
qed

lemma fsub_Fin: "fsub (Fin a) (Fin b) = round_double (a - b)"
  by (simp add: fsub_def)

lemma float_of_int_numeral:
  "(numeral n :: int) \<le> 2 ^ 53 \<Longrightarrow> float_of_int (numeral n) = Inr (Fin (numeral n))"
  by (simp add: float_of_int_def round_double_numeral)

lemmas float_eval = fsub_Fin round_double_numeral round_double_zero float_of_int_numeral

lemma map_err_from_dict_objects:
  "map_err TransferResponseItem_from_dict (map JObj ds) =
     Inr (map (\<lambda>d. \<lparr>
          TransferResponseItem.payment_reference_number = dict_get d ''PaymentReferenceNumber'' JNull,
          TransferResponseItem.payment_date = dict_get d ''PaymentDate'' JNull,
          TransferResponseItem.status = dict_get d ''Status'' JNull,
          TransferResponseItem.beneficiary_name = dict_get d ''BeneficiaryName'' JNull,
          TransferResponseItem.beneficiary_account_id = dict_get d ''BeneficiaryAccountId'' JNull,
          TransferResponseItem.authorisation_required =
            dict_get d ''AuthorisationRequired'' (JBool False) \<rparr>) ds)"
  by (induction ds) (simp_all add: TransferResponseItem_from_dict_def)


lemma nested_or_bare_nested:
  assumes "map_of c ''transferResponse'' = None" and "k \<noteq> ''transferResponse''"
  shows "nested_or_bare (JObj [(''transferResponse'', JObj c)]) k = nested_or_bare (JObj c) k"
  using assms by (simp add: nested_or_bare_def ebind_def split: option.splits)

lemma nested_or_bare_first:
  "nested_or_bare (JObj ((''transferResponse'', JObj [(''TransferResponses'', rs), (''ErrorMessage'', em)]) # rest)) ''TransferResponses'' = Inr (Some rs)"
  "nested_or_bare (JObj ((''transferResponse'', JObj [(''TransferResponses'', rs), (''ErrorMessage'', em)]) # rest)) ''ErrorMessage'' = Inr (Some em)"
  "nested_or_bare (JObj [(''TransferResponses'', rs), (''ErrorMessage'', em)]) ''TransferResponses'' = Inr (Some rs)"
  "nested_or_bare (JObj [(''TransferResponses'', rs), (''ErrorMessage'', em)]) ''ErrorMessage'' = Inr (Some em)"
  by (simp_all add: nested_or_bare_def ebind_def)

text \<open>
  C4. \<^verbatim>\<open>TransferResponse.from_dict\<close> accepts both envelope shapes. A mapping \<open>c\<close>
  in the bare shape (one with no \<^verbatim>\<open>transferResponse\<close> key of its own) gives the same
  result, a value or an exception, bare or wrapped as \<^verbatim>\<open>{transferResponse: c}\<close>. The
  nested key is read first: when it holds both \<^verbatim>\<open>TransferResponses\<close> and
  \<^verbatim>\<open>ErrorMessage\<close>, whatever else stands at top level is ignored. And a list of
  mappings with an error message is parsed to the items and the message.
\<close>

theorem TransferResponse_nested_and_bare:
  assumes "map_of c ''transferResponse'' = None"
  shows "TransferResponse_from_dict (JObj [(''transferResponse'', JObj c)]) =
           TransferResponse_from_dict (JObj c)
       \<and> TransferResponse_from_dict
           (JObj ((''transferResponse'',
                   JObj [(''TransferResponses'', rs), (''ErrorMessage'', em)]) # rest)) =
           TransferResponse_from_dict (JObj [(''TransferResponses'', rs), (''ErrorMessage'', em)])
       \<and> TransferResponse_from_dict
           (JObj [(''TransferResponses'', JArr (map JObj ds)), (''ErrorMessage'', em)]) =
           Inr \<lparr> TransferResponse.transfer_responses = map (\<lambda>d. \<lparr>
          TransferResponseItem.payment_reference_number = dict_get d ''PaymentReferenceNumber'' JNull,
          TransferResponseItem.payment_date = dict_get d ''PaymentDate'' JNull,
          TransferResponseItem.status = dict_get d ''Status'' JNull,
          TransferResponseItem.beneficiary_name = dict_get d ''BeneficiaryName'' JNull,
          TransferResponseItem.beneficiary_account_id = dict_get d ''BeneficiaryAccountId'' JNull,
          TransferResponseItem.authorisation_required =
            dict_get d ''AuthorisationRequired'' (JBool False) \<rparr>) ds,
                 TransferResponse.error_message = em \<rparr>"
proof (intro conjI)
  show "TransferResponse_from_dict (JObj [(''transferResponse'', JObj c)]) =
           TransferResponse_from_dict (JObj c)"
    unfolding TransferResponse_from_dict_def
    by (simp add: nested_or_bare_nested [OF assms])
next
  show "TransferResponse_from_dict
           (JObj ((''transferResponse'',
                   JObj [(''TransferResponses'', rs), (''ErrorMessage'', em)]) # rest)) =
           TransferResponse_from_dict (JObj [(''TransferResponses'', rs), (''ErrorMessage'', em)])"
    unfolding TransferResponse_from_dict_def
    by (simp only: nested_or_bare_first)
next
  show "TransferResponse_from_dict
           (JObj [(''TransferResponses'', JArr (map JObj ds)), (''ErrorMessage'', em)]) =
           Inr \<lparr> TransferResponse.transfer_responses = map (\<lambda>d. \<lparr>
          TransferResponseItem.payment_reference_number = dict_get d ''PaymentReferenceNumber'' JNull,
          TransferResponseItem.payment_date = dict_get d ''PaymentDate'' JNull,
          TransferResponseItem.status = dict_get d ''Status'' JNull,
          TransferResponseItem.beneficiary_name = dict_get d ''BeneficiaryName'' JNull,
          TransferResponseItem.beneficiary_account_id = dict_get d ''BeneficiaryAccountId'' JNull,
          TransferResponseItem.authorisation_required =
            dict_get d ''AuthorisationRequired'' (JBool False) \<rparr>) ds,
                 TransferResponse.error_message = em \<rparr>"
    unfolding TransferResponse_from_dict_def
    by (simp add: nested_or_bare_first map_err_from_dict_objects ebind_def)
qed

theorem TransferResponse_nested_and_bare_witness:
  "map_of [(''TransferResponses'', JArr [JObj [(''Status'', JStr ''OK'')]]),
           (''ErrorMessage'', JStr ''none'')] ''transferResponse'' = None
   \<and> TransferResponse_from_dict (JObj [(''transferResponse'',
         JObj [(''TransferResponses'', JArr [JObj [(''Status'', JStr ''OK'')]]),
               (''ErrorMessage'', JStr ''none'')])]) =
       Inr \<lparr> TransferResponse.transfer_responses = [\<lparr>
          TransferResponseItem.payment_reference_number = JNull,
          TransferResponseItem.payment_date = JNull,
          TransferResponseItem.status = JStr ''OK'',
          TransferResponseItem.beneficiary_name = JNull,
          TransferResponseItem.beneficiary_account_id = JNull,
          TransferResponseItem.authorisation_required = JBool False \<rparr>],
             TransferResponse.error_message = JStr ''none'' \<rparr>"
  using TransferResponse_nested_and_bare
    [of "[(''TransferResponses'', JArr [JObj [(''Status'', JStr ''OK'')]]),
           (''ErrorMessage'', JStr ''none'')]" "JArr [JObj [(''Status'', JStr ''OK'')]]" "JStr ''none''" "[]" "[[(''Status'', JStr ''OK'')]]"]
  by (simp add: dict_get_def)

text \<open>
  C5 (evaluation of the code). \<^verbatim>\<open>PaymentResponse.from_dict\<close> does not read the nested
  shape: for \<^verbatim>\<open>{transferResponse: {TransferResponses: [{Status: "OK"}], ErrorMessage: "none"}}\<close>
  it returns no item and no message, while the same content in the bare shape gives one
  item and the message.
\<close>

theorem PaymentResponse_nested_shape_not_read:
  "PaymentResponse_from_dict (JObj [(''transferResponse'',
         JObj [(''TransferResponses'', JArr [JObj [(''Status'', JStr ''OK'')]]),
               (''ErrorMessage'', JStr ''none'')])]) =
     Inr \<lparr> PaymentResponse.transfer_responses = [], PaymentResponse.error_message = JNull \<rparr>
   \<and> PaymentResponse_from_dict
         (JObj [(''TransferResponses'', JArr [JObj [(''Status'', JStr ''OK'')]]),
               (''ErrorMessage'', JStr ''none'')]) =
     Inr \<lparr> PaymentResponse.transfer_responses = [\<lparr>
          PaymentResponseItem.payment_reference_number = JNull,
          PaymentResponseItem.payment_date = JNull,
          PaymentResponseItem.status = JStr ''OK'',
          PaymentResponseItem.beneficiary_name = JNull,
          PaymentResponseItem.beneficiary_account_id = JNull,
          PaymentResponseItem.authorisation_required = JBool False \<rparr>],
             PaymentResponse.error_message = JStr ''none'' \<rparr>"
  by (simp add: PaymentResponse_from_dict_def PaymentResponseItem_from_dict_def ebind_def dict_get_def)

lemma request_status_429:
  assumes "get_auth_headers repr fos self now T out = (Inr h, self')"
    and "status_code r = 429"
    and "text' r = [] \<or> json_result r \<noteq> None"
  shows "request repr fos self now T out (Responded r) =
           (Inl (InvestecRateLimitError 429
              (if text' r = [] then JNull else the (json_result r))), self')"
  using assms by (auto simp: request_def)

lemma request_status_404:
  assumes "get_auth_headers repr fos self now T out = (Inr h, self')"
    and "status_code r = 404"
  shows "\<exists>b. request repr fos self now T out (Responded r) =
           (Inl (InvestecRequestError 404 b), self')"
  using assms by (auto simp: request_def raises_for_status_def http_error_def)

lemma get_document_status_404:
  assumes "get_auth_headers repr fos self now T out = (Inr h, self')"
    and "status_code r = 404"
  shows "\<exists>b. get_document repr fos self now T out (Responded r) =
           (Inl (InvestecRequestError 404 b), self')"
  using assms by (auto simp: get_document_def raises_for_status_def http_error_def)

text \<open>
  C2 (evaluation of the code). With a valid token stored, a response with status 429 and
  the body \<^verbatim>\<open>{}\<close> makes \<^verbatim>\<open>get_document\<close> raise the plain \<^verbatim>\<open>InvestecRequestError\<close>
  (status 429), where \<^verbatim>\<open>_request\<close> raises \<^verbatim>\<open>InvestecRateLimitError\<close> for the very same
  response. And a 429 whose body is not JSON makes \<^verbatim>\<open>_request\<close> raise the base
  \<^verbatim>\<open>InvestecAPIError\<close>, with no status code at all.
\<close>

theorem get_document_429_not_rate_limit:
  "get_document (\<lambda>v. []) (\<lambda>s. None)
       \<lparr> api_key = ''key'', access_token = JStr ''tok'', token_expires_at = Some (Fin 2000) \<rparr>
       1000 1000 Raised
       (Responded \<lparr> status_code = 429, text' = ''{}'', json_result = Some (JObj []),
                     content = ''{}'' \<rparr>) =
     (Inl (InvestecRequestError 429 (JObj [])),
      \<lparr> api_key = ''key'', access_token = JStr ''tok'', token_expires_at = Some (Fin 2000) \<rparr>)
   \<and> request (\<lambda>v. []) (\<lambda>s. None)
       \<lparr> api_key = ''key'', access_token = JStr ''tok'', token_expires_at = Some (Fin 2000) \<rparr>
       1000 1000 Raised
       (Responded \<lparr> status_code = 429, text' = ''{}'', json_result = Some (JObj []),
                     content = ''{}'' \<rparr>) =
     (Inl (InvestecRateLimitError 429 (JObj [])),
      \<lparr> api_key = ''key'', access_token = JStr ''tok'', token_expires_at = Some (Fin 2000) \<rparr>)
   \<and> request (\<lambda>v. []) (\<lambda>s. None)
       \<lparr> api_key = ''key'', access_token = JStr ''tok'', token_expires_at = Some (Fin 2000) \<rparr>
       1000 1000 Raised
       (Responded \<lparr> status_code = 429, text' = ''Too Many Requests'', json_result = None,
                     content = ''Too Many Requests'' \<rparr>) =
     (Inl InvestecAPIError,
      \<lparr> api_key = ''key'', access_token = JStr ''tok'', token_expires_at = Some (Fin 2000) \<rparr>)"
  by (simp add: get_document_def request_def get_auth_headers_def needs_authentication_def
      raises_for_status_def http_error_def)

lemma authenticate_ok_truthy:
  assumes "authenticate fos self T out = (Inr u, self')"
  shows "py_bool (access_token self')"
  using assms
  by (auto simp: authenticate_def Let_def
           split: transport.splits if_splits option.splits sum.splits error.splits)

text \<open>
  C10, as amended. Whenever \<^verbatim>\<open>_get_auth_headers\<close> returns normally, the stored access
  token is truthy (neither \<^verbatim>\<open>None\<close> nor empty) and the \<^verbatim>\<open>Authorization\<close> header is
  \<^verbatim>\<open>"Bearer "\<close> followed by \<^verbatim>\<open>str\<close> of that token; when the stored token is a string,
  it is a non-empty one and the header is \<^verbatim>\<open>"Bearer "\<close> followed by exactly that string.
\<close>

theorem auth_headers_token_truthy:
  assumes "get_auth_headers repr fos self now T out = (Inr h, self')"
  shows "py_bool (access_token self')
       \<and> Authorization h = ''Bearer '' @ py_str repr (access_token self')
       \<and> (\<forall>s. access_token self' = JStr s \<longrightarrow> s \<noteq> [] \<and> Authorization h = ''Bearer '' @ s)"
proof -
  have truthy: "py_bool (access_token self')"
  proof (cases "needs_authentication self now")
    case True
    then obtain u where "authenticate fos self T out = (Inr u, self')"
      using assms by (auto simp: get_auth_headers_def split: prod.splits sum.splits)
    then show ?thesis by (rule authenticate_ok_truthy)
  next
    case False
    then have "self' = self"
      using assms by (auto simp: get_auth_headers_def)
    with False show ?thesis by (simp add: needs_authentication_def)
  qed
  have hdr: "Authorization h = ''Bearer '' @ py_str repr (access_token self')"
    using assms by (auto simp: get_auth_headers_def split: prod.splits sum.splits if_splits)
  from truthy hdr show ?thesis by auto
qed

theorem auth_headers_token_truthy_witness:
  "get_auth_headers (\<lambda>v. []) (\<lambda>s. None)
      \<lparr> api_key = ''key'', access_token = JNull, token_expires_at = None \<rparr> 1000 1000
      (Responded \<lparr> status_code = 200, text' = ''{}'',
         json_result = Some (JObj [(''access_token'', JStr ''abc''), (''expires_in'', JInt 120)]),
         content = ''{}'' \<rparr>) =
     (Inr \<lparr> Authorization = ''Bearer abc'', x_api_key = ''key'', Accept = ''application/json'' \<rparr>,
      \<lparr> api_key = ''key'', access_token = JStr ''abc'', token_expires_at = Some (Fin 1060) \<rparr>)
   \<and> py_bool (JStr ''abc'')"
  using auth_headers_token_truthy [of "\<lambda>v. []" "\<lambda>s. None"
      "\<lparr> api_key = ''key'', access_token = JNull, token_expires_at = None \<rparr>" 1000 1000
      "Responded \<lparr> status_code = 200, text' = ''{}'',
         json_result = Some (JObj [(''access_token'', JStr ''abc''), (''expires_in'', JInt 120)]),
         content = ''{}'' \<rparr>"
      "\<lparr> Authorization = ''Bearer abc'', x_api_key = ''key'', Accept = ''application/json'' \<rparr>"
      "\<lparr> api_key = ''key'', access_token = JStr ''abc'', token_expires_at = Some (Fin 1060) \<rparr>"]
  by (simp add: get_auth_headers_def needs_authentication_def authenticate_def
        raises_for_status_def dict_get_def float_eval)

text \<open>
  C10 as stated fails: the token endpoint's JSON decides the type of the stored token. An
  \<^verbatim>\<open>access_token\<close> of \<^verbatim>\<open>5\<close> is truthy, so \<^verbatim>\<open>_authenticate\<close> does not raise, the
  stored token is the integer 5, not a string, and the header is \<^verbatim>\<open>"Bearer 5"\<close>.
\<close>

theorem auth_headers_token_not_string_counterexample:
  "get_auth_headers (\<lambda>v. []) (\<lambda>s. None)
      \<lparr> api_key = ''key'', access_token = JNull, token_expires_at = None \<rparr> 1000 1000
      (Responded \<lparr> status_code = 200, text' = ''{}'',
         json_result = Some (JObj [(''access_token'', JInt 5), (''expires_in'', JInt 120)]),
         content = ''{}'' \<rparr>) =
     (Inr \<lparr> Authorization = ''Bearer 5'', x_api_key = ''key'', Accept = ''application/json'' \<rparr>,
      \<lparr> api_key = ''key'', access_token = JInt 5, token_expires_at = Some (Fin 1060) \<rparr>)
   \<and> \<not> is_nonempty_str (JInt 5)"
  by (simp add: get_auth_headers_def needs_authentication_def authenticate_def
        raises_for_status_def dict_get_def str_int_def str_nat.simps digit_char_def float_eval)

subsection \<open>Printing a decimal and parsing it back\<close>

lemma below_ten: "n < 10 \<Longrightarrow> n \<in> {0, 1, 2, 3, 4, 5, 6, 7, 8, 9 :: nat}"
  unfolding insert_iff empty_iff by arith

lemma digit_char_below_ten:
  "\<forall>n\<in>{0, 1, 2, 3, 4, 5, 6, 7, 8, 9 :: nat}.
     is_digit (digit_char n) \<and> digit_val (digit_char n) = n"
  by (simp add: digit_char_def is_digit_def digit_val_def)

lemma digit_char_digit:
  assumes "n < 10"
  shows "is_digit (digit_char n)" and "digit_val (digit_char n) = n"
proof -
  have "is_digit (digit_char n) \<and> digit_val (digit_char n) = n"
    using digit_char_below_ten below_ten [OF assms] by (rule bspec)
  then show "is_digit (digit_char n)" and "digit_val (digit_char n) = n"
    by simp_all
qed

lemma str_nat_all_digits: "list_all is_digit (str_nat n)"
proof (induction n rule: str_nat.induct)
  case (1 n)
  show ?case
  proof (cases "n < 10")
    case True
    then show ?thesis by (subst str_nat.simps) (simp add: digit_char_digit)
  next
    case False
    then have "list_all is_digit (str_nat (n div 10))" using 1 by simp
    moreover have "is_digit (digit_char (n mod 10))" by (simp add: digit_char_digit)
    ultimately show ?thesis using False by (subst str_nat.simps) simp
  qed
qed

lemma str_nat_not_Nil: "str_nat n \<noteq> []"
  by (subst str_nat.simps) simp

lemma nat_of_digits_snoc: "nat_of_digits (ds @ [c]) = 10 * nat_of_digits ds + digit_val c"
  by (simp add: nat_of_digits_def)

lemma nat_of_digits_str_nat: "nat_of_digits (str_nat n) = n"
proof (induction n rule: str_nat.induct)
  case (1 n)
  show ?case
  proof (cases "n < 10")
    case True
    then show ?thesis
      by (subst str_nat.simps) (simp add: nat_of_digits_def digit_char_digit)
  next
    case False
    then have "nat_of_digits (str_nat (n div 10)) = n div 10" using 1 by simp
    then show ?thesis using False
      by (subst str_nat.simps) (simp add: nat_of_digits_snoc digit_char_digit)
  qed
qed

lemma foldl_zeros: "foldl (\<lambda>n c. 10 * n + digit_val c) 0 (replicate k CHR ''0'') = 0"
  by (induction k) (simp_all add: digit_val_def)

lemma nat_of_digits_zeros: "nat_of_digits (replicate k CHR ''0'' @ ds) = nat_of_digits ds"
  by (simp add: nat_of_digits_def foldl_zeros)

lemma nat_of_digits_zero_Cons: "nat_of_digits (CHR ''0'' # ds) = nat_of_digits ds"
  by (simp add: nat_of_digits_def digit_val_def)

lemma is_digit_simps:
  "is_digit c \<Longrightarrow> \<not> is_space c"
  "is_digit c \<Longrightarrow> c \<noteq> CHR ''_''"
  "is_digit c \<Longrightarrow> c \<noteq> CHR ''.''"
  "is_digit c \<Longrightarrow> c \<noteq> CHR ''-''"
  "is_digit c \<Longrightarrow> c \<noteq> CHR ''+''"
  "is_digit c \<Longrightarrow> c \<noteq> CHR ''e''"
  "is_digit c \<Longrightarrow> c \<noteq> CHR ''E''"
  by (auto simp: is_digit_def is_space_def)

lemma not_digit_chars:
  "\<not> is_digit CHR ''.''" "\<not> is_digit CHR ''E''" "\<not> is_digit CHR ''-''" "\<not> is_digit CHR ''+''"
  "is_digit CHR ''0''"
  by (simp_all add: is_digit_def)

lemma signed_digits_plus_d: "signed_digits (plus_d x) = Some x"
  by (simp add: signed_digits_def plus_d_def str_nat_not_Nil str_nat_all_digits
        nat_of_digits_str_nat)


lemma span_digits:
  assumes "list_all is_digit ds"
  shows "takeWhile is_digit ds = ds" and "dropWhile is_digit ds = []"
    and "\<not> is_digit c \<Longrightarrow> takeWhile is_digit (ds @ c # r) = ds"
    and "\<not> is_digit c \<Longrightarrow> dropWhile is_digit (ds @ c # r) = c # r"
  using assms by (simp_all add: list_all_iff takeWhile_append2 dropWhile_append2)

lemma parse_number_int:
  assumes "list_all is_digit ip" and "ip \<noteq> []"
  shows "parse_number ip = Some (nat_of_digits ip, 0)"
  using assms by (simp add: parse_number_def span_digits)

lemma parse_number_int_exp:
  assumes "list_all is_digit ip" and "ip \<noteq> []"
  shows "parse_number (ip @ CHR ''E'' # plus_d x) = Some (nat_of_digits ip, x)"
  using assms by (simp add: parse_number_def span_digits not_digit_chars signed_digits_plus_d)

lemma parse_number_frac:
  assumes "list_all is_digit ip" and "list_all is_digit fp" and "ip \<noteq> []"
  shows "parse_number (ip @ CHR ''.'' # fp) = Some (nat_of_digits (ip @ fp), - int (length fp))"
  using assms by (simp add: parse_number_def span_digits not_digit_chars)

lemma parse_number_frac_exp:
  assumes "list_all is_digit ip" and "list_all is_digit fp" and "ip \<noteq> []"
  shows "parse_number (ip @ CHR ''.'' # fp @ CHR ''E'' # plus_d x) =
           Some (nat_of_digits (ip @ fp), x - int (length fp))"
  using assms by (simp add: parse_number_def span_digits not_digit_chars signed_digits_plus_d)


lemma plain_chars:
  "is_digit c \<Longrightarrow> plain_char c"
  "plain_char CHR ''.''" "plain_char CHR ''E''" "plain_char CHR ''-''" "plain_char CHR ''+''"
  by (auto simp: plain_char_def is_digit_def is_space_def)

lemma list_all_plain_digits: "list_all is_digit ds \<Longrightarrow> list_all plain_char ds"
  by (simp add: list_all_iff plain_chars)

lemma list_all_plain_plus_d: "list_all plain_char (plus_d x)"
  by (simp add: plus_d_def plain_chars list_all_plain_digits str_nat_all_digits)

lemma dropWhile_none: "\<forall>c\<in>set xs. \<not> P c \<Longrightarrow> dropWhile P xs = xs"
  by (cases xs) auto

lemma strip_plain:
  assumes "list_all plain_char s"
  shows "filter (\<lambda>c. c \<noteq> CHR ''_'') (strip s) = s"
proof -
  have ns: "\<forall>c\<in>set s. \<not> is_space c" and nu: "\<forall>c\<in>set s. c \<noteq> CHR ''_''"
    using assms by (auto simp: list_all_iff plain_char_def)
  have d1: "dropWhile is_space s = s"
    using ns by (rule dropWhile_none)
  have "\<forall>c\<in>set (rev s). \<not> is_space c" using ns by simp
  then have d2: "dropWhile is_space (rev s) = rev s"
    by (rule dropWhile_none)
  have "strip s = s" by (simp add: strip_def d1 d2)
  moreover have "filter (\<lambda>c. c \<noteq> CHR ''_'') s = s"
    using nu by (simp add: filter_id_conv)
  ultimately show ?thesis by simp
qed

lemma Decimal_sign_body:
  assumes "parse_number body = Some (c, e)" and "list_all plain_char body"
    and "body = d # rest" and "is_digit d"
  shows "Decimal (sign_str s @ body) = Some (DFinite s c e)"
proof -
  have pl: "list_all plain_char (sign_str s @ body)"
    using assms(2) by (simp add: sign_str_def plain_chars)
  have d: "d \<noteq> CHR ''-''" "d \<noteq> CHR ''+''"
    using assms(4) by (auto dest: is_digit_simps)
  have "Decimal (sign_str s @ body) =
          (case (case sign_str s @ body of
                   c # u \<Rightarrow> if c = CHR ''-'' then (True, u)
                            else if c = CHR ''+'' then (False, u) else (False, sign_str s @ body)
                 | [] \<Rightarrow> (False, sign_str s @ body)) of
             (sg, r) \<Rightarrow> (case parse_number r of
                           Some (c, e) \<Rightarrow> Some (DFinite sg c e)
                         | None \<Rightarrow> parse_special sg r))"
    unfolding Decimal_def strip_plain [OF pl] Let_def ..
  also have "\<dots> = Some (DFinite s c e)"
    using assms(1,3) d by (cases s) (simp_all add: sign_str_def)
  finally show ?thesis .
qed


lemma Decimal_decimal_str_finite: "Decimal (decimal_str (DFinite s c e)) = Some (DFinite s c e)"
proof -
  define ds where "ds = str_nat c"
  define n where "n = int (length ds)"
  have dig: "list_all is_digit ds" and ne: "ds \<noteq> []" and val: "nat_of_digits ds = c"
    by (simp_all add: ds_def str_nat_all_digits str_nat_not_Nil nat_of_digits_str_nat)
  obtain d0 dr where ds_Cons: "ds = d0 # dr" using ne by (cases ds) auto
  have d0: "is_digit d0" using dig ds_Cons by simp
  have n1: "n \<ge> 1" using ne by (cases ds) (simp_all add: n_def)
  have pl: "list_all plain_char ds" using dig by (rule list_all_plain_digits)
  consider
      (small) "e \<le> 0" "e + n > - 6" "e + n \<le> 0"
    | (whole) "e = 0"
    | (point) "e < 0" "0 < e + n"
    | (sci1) "\<not> (e \<le> 0 \<and> e + n > - 6)" "n = 1"
    | (sci) "\<not> (e \<le> 0 \<and> e + n > - 6)" "n > 1"
    using n1 by linarith
  then show ?thesis
  proof cases
    case small
    let ?fp = "replicate (nat (- (e + n))) CHR ''0'' @ ds"
    let ?body = "''0'' @ CHR ''.'' # ?fp"
    have str: "decimal_str (DFinite s c e) = sign_str s @ ?body"
      using small by (simp add: decimal_str_def Let_def flip: ds_def n_def)
    have fp: "list_all is_digit ?fp" using dig by (auto simp: not_digit_chars list_all_iff)
    have z: "list_all is_digit ''0''" by (simp add: not_digit_chars)
    have "parse_number ?body = Some (nat_of_digits (''0'' @ ?fp), - int (length ?fp))"
      using z fp by (rule parse_number_frac) simp
    moreover have "nat_of_digits (''0'' @ ?fp) = c"
      by (simp add: nat_of_digits_zero_Cons nat_of_digits_zeros val)
    moreover have "- int (length ?fp) = e" using small by (simp add: n_def)
    ultimately have "parse_number ?body = Some (c, e)" by simp
    moreover have "list_all plain_char ?body"
      using list_all_plain_digits [OF fp] by (simp add: plain_chars not_digit_chars)
    moreover have "?body = CHR ''0'' # (CHR ''.'' # ?fp)" by simp
    moreover have "is_digit CHR ''0''" by (simp add: not_digit_chars)
    ultimately show ?thesis
      unfolding str by (rule Decimal_sign_body)
  next
    case whole
    have str: "decimal_str (DFinite s c e) = sign_str s @ ds"
      using whole n1 by (simp add: decimal_str_def Let_def flip: ds_def n_def)
    have "parse_number ds = Some (c, e)"
      using parse_number_int [OF dig ne] whole val by simp
    then show ?thesis
      unfolding str using pl ds_Cons d0 by (rule Decimal_sign_body)
  next
    case point
    let ?k = "nat (e + n)"
    let ?body = "take ?k ds @ CHR ''.'' # drop ?k ds"
    have k: "?k < length ds" "0 < ?k" using point by (simp_all add: n_def)
    have str: "decimal_str (DFinite s c e) = sign_str s @ ?body"
      using point by (simp add: decimal_str_def Let_def flip: ds_def n_def)
    have tk: "list_all is_digit (take ?k ds)" and dr: "list_all is_digit (drop ?k ds)"
      using dig by (auto simp: list_all_iff dest: in_set_takeD in_set_dropD)
    have tne: "take ?k ds \<noteq> []" using k ne by simp
    have "parse_number ?body =
            Some (nat_of_digits (take ?k ds @ drop ?k ds), - int (length (drop ?k ds)))"
      using tk dr tne by (rule parse_number_frac)
    moreover have "- int (length (drop ?k ds)) = e" using point by (simp add: n_def)
    ultimately have "parse_number ?body = Some (c, e)" using val by simp
    moreover have "list_all plain_char ?body"
      using tk dr by (simp add: plain_chars list_all_plain_digits)
    moreover have "?body = d0 # (take (?k - 1) dr @ CHR ''.'' # drop ?k ds)"
      using k ds_Cons by (cases ?k) simp_all
    ultimately show ?thesis
      unfolding str using d0 by (rule Decimal_sign_body)
  next
    case sci1
    let ?body = "ds @ CHR ''E'' # plus_d (e + n - 1)"
    have str: "decimal_str (DFinite s c e) = sign_str s @ ?body"
      using sci1 by (auto simp add: decimal_str_def Let_def simp flip: ds_def n_def)
    have "parse_number ?body = Some (nat_of_digits ds, e + n - 1)"
      using dig ne by (rule parse_number_int_exp)
    then have "parse_number ?body = Some (c, e)" using val sci1 by simp
    moreover have "list_all plain_char ?body"
      using pl by (simp add: plain_chars list_all_plain_plus_d)
    moreover have "?body = d0 # (dr @ CHR ''E'' # plus_d (e + n - 1))"
      using ds_Cons by simp
    ultimately show ?thesis
      unfolding str using d0 by (rule Decimal_sign_body)
  next
    case sci
    let ?body = "take 1 ds @ CHR ''.'' # drop 1 ds @ CHR ''E'' # plus_d (e + n - 1)"
    have str: "decimal_str (DFinite s c e) = sign_str s @ ?body"
      using sci by (auto simp add: decimal_str_def Let_def simp flip: ds_def n_def)
    have tk: "list_all is_digit (take 1 ds)" and dr: "list_all is_digit (drop 1 ds)"
      using dig by (auto simp: list_all_iff dest: in_set_takeD in_set_dropD)
    have tne: "take 1 ds \<noteq> []" using ne by simp
    have "parse_number ?body =
            Some (nat_of_digits (take 1 ds @ drop 1 ds), e + n - 1 - int (length (drop 1 ds)))"
      using tk dr tne by (rule parse_number_frac_exp)
    moreover have "e + n - 1 - int (length (drop 1 ds)) = e" using sci by (simp add: n_def)
    ultimately have "parse_number ?body = Some (c, e)" using val by simp
    moreover have "list_all plain_char ?body"
      using tk dr by (simp add: plain_chars list_all_plain_digits list_all_plain_plus_d)
    moreover have "?body = d0 # (CHR ''.'' # drop 1 ds @ CHR ''E'' # plus_d (e + n - 1))"
      using ds_Cons by simp
    ultimately show ?thesis
      unfolding str using d0 by (rule Decimal_sign_body)
  qed
qed

lemma is_digit_cases:
  "is_digit c \<Longrightarrow> c = CHR ''0'' \<or> c = CHR ''1'' \<or> c = CHR ''2'' \<or> c = CHR ''3'' \<or> c = CHR ''4''
     \<or> c = CHR ''5'' \<or> c = CHR ''6'' \<or> c = CHR ''7'' \<or> c = CHR ''8'' \<or> c = CHR ''9''"
  unfolding is_digit_def by simp

lemma lower_char_digit: "is_digit c \<Longrightarrow> lower_char c = c"
  by (drule is_digit_cases, elim disjE) (simp_all add: lower_char_def)

lemma lower_digits: "list_all is_digit ds \<Longrightarrow> lower ds = ds"
  by (induction ds) (simp_all add: lower_def lower_char_digit)

lemma parse_number_letter:
  assumes "\<not> is_digit c" and "c \<noteq> CHR ''.''"
  shows "parse_number (c # r) = None"
  using assms by (simp add: parse_number_def)

lemma Decimal_special:
  assumes "list_all plain_char body" and "body = c # r" and "\<not> is_digit c"
    and "c \<noteq> CHR ''.''" and "c \<noteq> CHR ''-''" and "c \<noteq> CHR ''+''"
  shows "Decimal (sign_str s @ body) = parse_special s body"
proof -
  have pl: "list_all plain_char (sign_str s @ body)"
    using assms(1) by (simp add: sign_str_def plain_chars)
  have "Decimal (sign_str s @ body) =
          (case (case sign_str s @ body of
                   c # u \<Rightarrow> if c = CHR ''-'' then (True, u)
                            else if c = CHR ''+'' then (False, u) else (False, sign_str s @ body)
                 | [] \<Rightarrow> (False, sign_str s @ body)) of
             (sg, r) \<Rightarrow> (case parse_number r of
                           Some (c, e) \<Rightarrow> Some (DFinite sg c e)
                         | None \<Rightarrow> parse_special sg r))"
    unfolding Decimal_def strip_plain [OF pl] Let_def ..
  also have "\<dots> = parse_special s body"
    using assms(2-) by (cases s) (simp_all add: sign_str_def parse_number_letter)
  finally show ?thesis .
qed

lemma plain_letters:
  "plain_char CHR ''I''" "plain_char CHR ''n''" "plain_char CHR ''f''" "plain_char CHR ''i''"
  "plain_char CHR ''t''" "plain_char CHR ''y''" "plain_char CHR ''N''" "plain_char CHR ''a''"
  "plain_char CHR ''s''"
  by (simp_all add: plain_char_def is_space_def)

lemma Decimal_decimal_str_infinity: "Decimal (decimal_str (DInfinity s)) = Some (DInfinity s)"
proof -
  have "Decimal (sign_str s @ ''Infinity'') = parse_special s ''Infinity''"
    by (rule Decimal_special [where c = "CHR ''I''" and r = "''nfinity''"])
       (simp_all add: plain_letters is_digit_def)
  also have "\<dots> = Some (DInfinity s)"
    by (simp add: parse_special_def lower_def lower_char_def)
  finally show ?thesis by (simp add: decimal_str_def)
qed

lemma Decimal_decimal_str_nan: "Decimal (decimal_str (DNaN s signal diag)) = Some (DNaN s signal diag)"
proof -
  define ds where "ds = (if diag = 0 then [] else str_nat diag)"
  have dig: "list_all is_digit ds" by (simp add: ds_def str_nat_all_digits)
  have val: "nat_of_digits ds = diag"
    by (simp add: ds_def nat_of_digits_str_nat) (simp add: nat_of_digits_def)
  have low: "lower ds = ds" using dig by (rule lower_digits)
  have pl: "list_all plain_char ds" using dig by (rule list_all_plain_digits)
  show ?thesis
  proof (cases signal)
    case True
    have "Decimal (sign_str s @ ''sNaN'' @ ds) = parse_special s (''sNaN'' @ ds)"
      by (rule Decimal_special [where c = "CHR ''s''" and r = "''NaN'' @ ds"])
         (simp_all add: plain_letters is_digit_def pl)
    also have "lower (''sNaN'' @ ds) = ''snan'' @ ds"
      using low by (simp add: lower_def lower_char_def)
    then have "parse_special s (''sNaN'' @ ds) = Some (DNaN s True diag)"
      using dig val by (simp add: parse_special_def)
    finally show ?thesis using True by (simp add: decimal_str_def ds_def)
  next
    case False
    have "Decimal (sign_str s @ ''NaN'' @ ds) = parse_special s (''NaN'' @ ds)"
      by (rule Decimal_special [where c = "CHR ''N''" and r = "''aN'' @ ds"])
         (simp_all add: plain_letters is_digit_def pl)
    also have "lower (''NaN'' @ ds) = ''nan'' @ ds"
      using low by (simp add: lower_def lower_char_def)
    then have "parse_special s (''NaN'' @ ds) = Some (DNaN s False diag)"
      using dig val by (simp add: parse_special_def)
    finally show ?thesis using False by (simp add: decimal_str_def ds_def)
  qed
qed

lemma Decimal_decimal_str: "Decimal (decimal_str d) = Some d"
  by (cases d)
    (simp_all only: Decimal_decimal_str_finite Decimal_decimal_str_infinity Decimal_decimal_str_nan)

lemma ebind_eq_Inr: "(ebind m f = Inr y) = (\<exists>x. m = Inr x \<and> f x = Inr y)"
  by (cases m) (simp_all add: ebind_def)

lemmas Decimal_eval =
  Decimal_def strip_def is_space_def parse_number_def is_digit_def parse_special_def
  lower_def lower_char_def nat_of_digits_def digit_val_def signed_digits_def

text \<open>
  C8. Round trip: for every \<^verbatim>\<open>TransferItem\<close> (with any decimal as amount: finite of any
  sign, coefficient and exponent, infinite or NaN), \<^verbatim>\<open>to_dict\<close> followed by
  \<^verbatim>\<open>from_dict\<close> returns the item itself: the same \<^verbatim>\<open>beneficiary_account_id\<close>,
  \<^verbatim>\<open>my_reference\<close> and \<^verbatim>\<open>their_reference\<close>, and the same amount digit for digit
  (\<^verbatim>\<open>100.00\<close> comes back as coefficient 10000 with exponent -2, not as 100).
\<close>

theorem TransferItem_round_trip:
  "TransferItem_from_dict repr (TransferItem_to_dict item) = Inr item"
  by (cases item)
     (simp add: TransferItem_from_dict_def TransferItem_to_dict_def Decimal_of_def
        Decimal_decimal_str dict_get_def ebind_def)

text \<open>
  C6 (evaluation of the code). A non-numeric \<^verbatim>\<open>amount\<close> makes deserialization raise
  \<^verbatim>\<open>decimal.InvalidOperation\<close>: \<^verbatim>\<open>Transaction.from_dict({"amount": "abc"})\<close> and
  \<^verbatim>\<open>{"amount": null}\<close> (whose \<^verbatim>\<open>str\<close> is \<^verbatim>\<open>"None"\<close>), and likewise
  \<^verbatim>\<open>AccountBalance\<close>, \<^verbatim>\<open>TransferItem\<close> and \<^verbatim>\<open>BeneficiaryPaymentItem\<close>.
\<close>

theorem from_dict_crashes_on_non_numeric_amount:
  "Transaction_from_dict (\<lambda>v. []) (\<lambda>s. (None :: unit option)) (JObj [(''amount'', JStr ''abc'')]) =
     Inl InvalidOperation
   \<and> Transaction_from_dict (\<lambda>v. []) (\<lambda>s. (None :: unit option)) (JObj [(''amount'', JNull)]) =
     Inl InvalidOperation
   \<and> AccountBalance_from_dict (\<lambda>v. []) (JObj [(''currentBalance'', JStr ''abc'')]) =
     Inl InvalidOperation
   \<and> TransferItem_from_dict (\<lambda>v. []) (JObj [(''amount'', JStr ''abc'')]) = Inl InvalidOperation
   \<and> BeneficiaryPaymentItem_from_dict (\<lambda>v. []) (JObj [(''amount'', JStr ''abc'')]) =
     Inl InvalidOperation"
  by (simp add: Transaction_from_dict_def AccountBalance_from_dict_def TransferItem_from_dict_def
        BeneficiaryPaymentItem_from_dict_def date_field_def ebind_def dict_get_def
        Decimal_of_def Decimal_eval)

text \<open>
  C7, as amended. Whenever \<^verbatim>\<open>Transaction.from_dict\<close> returns on a mapping, its
  \<^verbatim>\<open>type\<close> is the member \<^verbatim>\<open>DEBIT\<close> when the key \<^verbatim>\<open>type\<close> is absent and the wire
  value itself, unchanged, when it is present; its \<^verbatim>\<open>status\<close> is \<^verbatim>\<open>POSTED\<close> when the
  key is absent and the wire value itself otherwise. So the defaults stand for an absent
  field only, and no wire value is ever turned into another one.
\<close>

theorem Transaction_type_status_as_on_wire:
  assumes "Transaction_from_dict repr fromisoformat (JObj d) = Inr t"
  shows "Transaction.type' t = (case map_of d ''type'' of None \<Rightarrow> Member DEBIT | Some v \<Rightarrow> Raw v)
       \<and> Transaction.status t = (case map_of d ''status'' of None \<Rightarrow> Member POSTED | Some v \<Rightarrow> Raw v)
       \<and> (Transaction.type' t = Member DEBIT \<longleftrightarrow> map_of d ''type'' = None)
       \<and> (Transaction.status t = Member POSTED \<longleftrightarrow> map_of d ''status'' = None)"
  using assms
  by (auto simp: Transaction_from_dict_def ebind_eq_Inr get_enum_def split: option.splits)

theorem Transaction_type_status_as_on_wire_witness:
  "Transaction_from_dict (\<lambda>v. []) (\<lambda>s. (None :: unit option))
       (JObj [(''type'', JStr ''CREDIT''), (''amount'', JStr ''45.50'')]) =
     Inr \<lparr> Transaction.account_id = JStr '''', Transaction.type' = Raw (JStr ''CREDIT''),
           Transaction.transaction_type = JNull, Transaction.status = Member POSTED,
           Transaction.description = JStr '''', Transaction.card_number = JNull,
           Transaction.posted_order = JNull, Transaction.posting_date = None,
           Transaction.value_date = None, Transaction.action_date = None,
           Transaction.transaction_date = None, Transaction.amount = DFinite False 4550 (- 2),
           Transaction.running_balance = None, Transaction.uuid = JNull \<rparr>
   \<and> is_TransactionType (Raw (JStr ''CREDIT''))"
  using Transaction_type_status_as_on_wire [of "\<lambda>v. []" "\<lambda>s. (None :: unit option)"
      "[(''type'', JStr ''CREDIT''), (''amount'', JStr ''45.50'')]"
      "\<lparr> Transaction.account_id = JStr '''', Transaction.type' = Raw (JStr ''CREDIT''),
           Transaction.transaction_type = JNull, Transaction.status = Member POSTED,
           Transaction.description = JStr '''', Transaction.card_number = JNull,
           Transaction.posted_order = JNull, Transaction.posting_date = None,
           Transaction.value_date = None, Transaction.action_date = None,
           Transaction.transaction_date = None, Transaction.amount = DFinite False 4550 (- 2),
           Transaction.running_balance = None, Transaction.uuid = JNull \<rparr>"]
  by (simp add: Transaction_from_dict_def date_field_def ebind_def dict_get_def get_enum_def
        Decimal_of_def Decimal_eval)

text \<open>
  C7 as stated fails: the wire values \<^verbatim>\<open>"FOO"\<close> and \<^verbatim>\<open>"BAR"\<close> are stored as they
  are, so the resulting \<^verbatim>\<open>type\<close> and \<^verbatim>\<open>status\<close> are no members of the
  enumerations.
\<close>

theorem Transaction_unknown_type_counterexample:
  "Transaction_from_dict (\<lambda>v. []) (\<lambda>s. (None :: unit option))
       (JObj [(''type'', JStr ''FOO''), (''status'', JStr ''BAR''), (''amount'', JStr ''45.50'')]) =
     Inr \<lparr> Transaction.account_id = JStr '''', Transaction.type' = Raw (JStr ''FOO''),
           Transaction.transaction_type = JNull, Transaction.status = Raw (JStr ''BAR''),
           Transaction.description = JStr '''', Transaction.card_number = JNull,
           Transaction.posted_order = JNull, Transaction.posting_date = None,
           Transaction.value_date = None, Transaction.action_date = None,
           Transaction.transaction_date = None, Transaction.amount = DFinite False 4550 (- 2),
           Transaction.running_balance = None, Transaction.uuid = JNull \<rparr>
   \<and> \<not> is_TransactionType (Raw (JStr ''FOO''))
   \<and> \<not> is_TransactionStatus (Raw (JStr ''BAR''))"
  by (simp add: Transaction_from_dict_def date_field_def ebind_def dict_get_def get_enum_def
        Decimal_of_def Decimal_eval)

lemma no_data_key:
  assumes "map_of d ''data'' = None"
  shows "data_has (JObj d) k = Inr False" and "data_is_list (JObj d) = Inr False"
  using assms by (simp_all add: data_has_def data_is_list_def ebind_def)

text \<open>
  C3. For every response that is a mapping without the key \<^verbatim>\<open>data\<close>, each of the eight
  operations that return lists (accounts, transactions, pending transactions,
  beneficiaries, profiles, profile accounts, profile beneficiaries, documents) returns the
  empty list and raises nothing.
\<close>

theorem list_operations_without_data_key:
  assumes "map_of d ''data'' = None"
  shows "get_accounts (JObj d) = Inr []
       \<and> get_account_transactions repr fromisoformat (JObj d) = Inr []
       \<and> get_account_pending_transactions repr fromisoformat (JObj d) = Inr []
       \<and> get_beneficiaries (JObj d) = Inr []
       \<and> get_profiles (JObj d) = Inr []
       \<and> get_profile_accounts (JObj d) = Inr []
       \<and> get_profile_beneficiaries (JObj d) = Inr []
       \<and> get_documents date_fromisoformat today (JObj d) = Inr []"
  by (simp add: get_accounts_def get_account_transactions_def
        get_account_pending_transactions_def get_beneficiaries_def get_profiles_def
        get_profile_accounts_def get_profile_beneficiaries_def get_documents_def
        no_data_key [OF assms] ebind_def)

theorem list_operations_without_data_key_witness:
  "map_of [(''accounts'', JArr [JObj [(''accountId'', JStr ''A1'')]])] ''data'' = None
   \<and> get_accounts (JObj [(''accounts'', JArr [JObj [(''accountId'', JStr ''A1'')]])]) = Inr []
   \<and> get_account_transactions (\<lambda>v. []) (\<lambda>s. (None :: unit option))
        (JObj [(''accounts'', JArr [JObj [(''accountId'', JStr ''A1'')]])]) = Inr []
   \<and> get_documents (\<lambda>s. (None :: unit option)) ()
        (JObj [(''accounts'', JArr [JObj [(''accountId'', JStr ''A1'')]])]) = Inr []"
  using list_operations_without_data_key
    [of "[(''accounts'', JArr [JObj [(''accountId'', JStr ''A1'')]])]"
        "\<lambda>v. []" "\<lambda>s. (None :: unit option)" "\<lambda>s. (None :: unit option)" "()"]
  by simp

lemma get_accounts_example:
  "get_accounts (JObj [(''data'', JObj [(''accounts'', JArr [JObj [(''accountId'', JStr ''A1'')]])])]) =
     Inr [\<lparr> Account.account_id = JStr ''A1'', Account.account_number = JStr '''',
            Account.account_name = JStr '''', Account.reference_name = JStr '''',
            Account.product_name = JStr '''', Account.kyc_compliant = JBool False,
            Account.profile_id = JStr '''', Account.profile_name = JStr '''' \<rparr>]"
  by (simp add: get_accounts_def data_has_def each_of_data_key_def ebind_def Account_from_dict_def
        dict_get_def)

subsection \<open>Token lifecycle\<close>

lemma floor_le_round_half_even: "\<lfloor>m\<rfloor> \<le> round_half_even m"
  by (simp add: round_half_even_def Let_def)

lemma float_of_int_overflow:
  assumes "2 ^ 1024 \<le> i"
  shows "float_of_int i = Inl OverflowError"
proof -
  have ipos: "0 < i"
  proof -
    have "(0::int) < 2 ^ 1024" by (rule zero_less_power) simp
    with assms show ?thesis by linarith
  qed
  define b where "b = bit_length i"
  have bnd: "(2::int) ^ (b - 1) \<le> i" "i < 2 ^ b"
    using bit_length_bounds [OF ipos] by (simp_all add: b_def)
  have "(2::int) ^ 1024 < 2 ^ b" using assms bnd(2) by linarith
  then have b: "1024 < b" by (rule power_less_imp_less_exp [rotated]) simp
  define k where "k = b - 1 - 52"
  have kb: "b - 1 = 52 + k" using b by (simp add: k_def)
  have fl: "floor_log2 (of_int i) = int b - 1"
    using floor_log2_of_int [OF ipos] by (simp add: b_def)
  have e: "max (floor_log2 (of_int i)) (- 1022) = int b - 1"
    using fl b by simp
  have ex: "int b - 1 - 52 = int k" using b by (simp add: k_def)
  have u: "pow2 (int k) = 2 ^ k" by (simp add: pow2_def)
  have "(2::int) ^ 52 * 2 ^ k \<le> i"
    using bnd(1) by (simp only: kb power_add)
  then have "(of_int ((2::int) ^ 52 * 2 ^ k) :: rat) \<le> of_int i"
    by (simp only: of_int_le_iff)
  then have "(2::rat) ^ 52 * 2 ^ k \<le> of_int i" by simp
  then have "(2::rat) ^ 52 \<le> of_int i / 2 ^ k"
    by (simp add: pos_le_divide_eq)
  then have "(of_int ((2::int) ^ 52) :: rat) \<le> of_int i / 2 ^ k" by simp
  then have "(2::int) ^ 52 \<le> \<lfloor>(of_int i :: rat) / 2 ^ k\<rfloor>"
    by (simp only: le_floor_iff)
  then have m: "(2::int) ^ 52 \<le> round_half_even (of_int i / 2 ^ k)"
    using floor_le_round_half_even [of "of_int i / 2 ^ k"] by linarith
  have "(of_int ((2::int) ^ 52) :: rat) \<le> of_int (round_half_even (of_int i / 2 ^ k))"
    using m by (simp only: of_int_le_iff)
  then have "(2::rat) ^ 52 * 2 ^ k \<le> of_int (round_half_even (of_int i / 2 ^ k)) * 2 ^ k"
    by (simp add: mult_right_mono)
  moreover have "(2::rat) ^ 1024 \<le> 2 ^ 52 * 2 ^ k"
  proof -
    have "1024 \<le> 52 + k" using b kb by linarith
    then have "(2::rat) ^ 1024 \<le> 2 ^ (52 + k)" by (rule power_increasing) simp
    then show ?thesis by (simp only: power_add)
  qed
  moreover have "pow2 1024 = 2 ^ 1024"
  proof -
    have "(0::int) \<le> 1024" by simp
    then have "pow2 1024 = 2 ^ nat 1024" unfolding pow2_def by (rule if_P)
    then show ?thesis by (simp only: nat_numeral)
  qed
  ultimately have over: "pow2 1024 \<le> of_int (round_half_even (of_int i / 2 ^ k)) * 2 ^ k"
    by (simp only:)
  have ne: "(of_int i :: rat) \<noteq> 0" "\<bar>of_int i :: rat\<bar> = of_int i" "(of_int i :: rat) > 0"
    using ipos by simp_all
  have "round_double (of_int i) = PInf"
    unfolding round_double_def Let_def ne(2) e ex u
    using ne(1,3) over by (simp only: if_False if_True)
  then show ?thesis by (simp add: float_of_int_def)
qed

lemma authenticate_overflow:
  assumes "\<not> raises_for_status r" and "json_result r = Some (JObj d)"
    and "dict_get d ''expires_in'' (JInt 1799) = JInt i" and "2 ^ 1024 \<le> i"
  shows "authenticate fos self T (Responded r) =
           (Inl OverflowError, self\<lparr> access_token := dict_get d ''access_token'' JNull \<rparr>)"
  using assms by (simp add: authenticate_def Let_def float_of_int_overflow)

lemma request_state:
  "snd (request repr fos s now T' out' outcome) = snd (get_auth_headers repr fos s now T' out')"
  by (simp add: request_def split: prod.splits sum.splits)

lemma get_document_state:
  "snd (get_document repr fos s now T' out' outcome) = snd (get_auth_headers repr fos s now T' out')"
  by (simp add: get_document_def split: prod.splits sum.splits)

lemma get_auth_headers_state:
  "snd (get_auth_headers repr fos s now T' out') =
     (if needs_authentication s now then snd (authenticate fos s T' out') else s)"
  by (simp add: get_auth_headers_def split: prod.splits sum.splits)

lemma get_auth_headers_error:
  "needs_authentication s now \<Longrightarrow> fst (authenticate fos s T' out') = Inl e \<Longrightarrow>
     fst (get_auth_headers repr fos s now T' out') = Inl e"
  by (cases "authenticate fos s T' out'") (auto simp: get_auth_headers_def)

lemma request_auth_error:
  "fst (get_auth_headers repr fos s now T' out') = Inl e \<Longrightarrow>
     fst (request repr fos s now T' out' outcome) = Inl e"
  by (cases "get_auth_headers repr fos s now T' out'") (auto simp: request_def)

lemma get_document_auth_error:
  "fst (get_auth_headers repr fos s now T' out') = Inl e \<Longrightarrow>
     fst (get_document repr fos s now T' out' outcome) = Inl e"
  by (cases "get_auth_headers repr fos s now T' out'") (auto simp: get_document_def)

text \<open>
  C1, as amended. After a successful authentication at clock reading \<open>T\<close> whose response
  gives \<^verbatim>\<open>expires_in\<close> the float value \<open>x\<close> (\<^verbatim>\<open>float(expires_in)\<close>, and 1799.0 when the
  key is absent), the client stores the expiry timestamp \<open>(T + x) - 60\<close> as float
  arithmetic computes it, which is the exact \<open>T + x - 60\<close> whenever \<open>T + x\<close> and
  \<open>T + x - 60\<close> are floats. At every later call at clock reading \<open>now\<close>
  (\<^verbatim>\<open>_get_auth_headers\<close>, and through it \<^verbatim>\<open>_request\<close> and \<^verbatim>\<open>get_document\<close>), the
  client re-authenticates exactly when the stored token is falsy (absent or empty), the
  stored timestamp is absent or zero, or \<open>now\<close> is at or past the stored timestamp;
  otherwise it builds the headers from the stored token and leaves the state alone. For
  \<^verbatim>\<open>expires_in = 120\<close> issued at \<open>T\<close>, with \<open>T + 120\<close> and \<open>T + 60\<close> floats: a check at
  \<open>T + 61\<close> or later re-authenticates, and a check before \<open>T + 60\<close> does not, unless
  \<open>T + 60\<close> is zero.
\<close>

theorem token_expiry_timing:
  assumes ok: "\<not> raises_for_status r"
    and body: "json_result r = Some (JObj d)"
    and tok: "py_bool (dict_get d ''access_token'' JNull)"
    and exp: "py_float fos (dict_get d ''expires_in'' (JInt 1799)) = Inr x"
  shows "authenticate fos self T (Responded r) =
           (Inr (), self\<lparr> access_token := dict_get d ''access_token'' JNull,
                           token_expires_at := Some (fsub (fadd (Fin T) x) (Fin 60)) \<rparr>)
       \<and> (map_of d ''expires_in'' = None \<longrightarrow> x = Fin 1799)
       \<and> (\<forall>v. x = Fin v \<and> round_double (T + v) = Fin (T + v)
                \<and> round_double (T + v - 60) = Fin (T + v - 60) \<longrightarrow>
              fsub (fadd (Fin T) x) (Fin 60) = Fin (T + v - 60))
       \<and> (\<forall>s. needs_authentication s now \<longleftrightarrow>
              \<not> py_bool (access_token s) \<or> token_expires_at s = None
              \<or> token_expires_at s = Some (Fin 0)
              \<or> (\<exists>e. token_expires_at s = Some e \<and> fge (Fin now) e))
       \<and> (\<forall>s. \<not> needs_authentication s now \<longrightarrow>
              get_auth_headers repr fos s now T' out' =
                (Inr \<lparr> Authorization = ''Bearer '' @ py_str repr (access_token s),
                       x_api_key = api_key s, Accept = ''application/json'' \<rparr>, s)
              \<and> snd (request repr fos s now T' out' outcome) = s
              \<and> snd (get_document repr fos s now T' out' outcome) = s)
       \<and> (\<forall>s. needs_authentication s now \<longrightarrow>
              snd (get_auth_headers repr fos s now T' out') = snd (authenticate fos s T' out')
              \<and> snd (request repr fos s now T' out' outcome) = snd (authenticate fos s T' out')
              \<and> snd (get_document repr fos s now T' out' outcome) =
                    snd (authenticate fos s T' out')
              \<and> (\<forall>e. fst (authenticate fos s T' out') = Inl e \<longrightarrow>
                     fst (request repr fos s now T' out' outcome) = Inl e
                     \<and> fst (get_document repr fos s now T' out' outcome) = Inl e))
       \<and> (x = Fin 120 \<and> round_double (T + 120) = Fin (T + 120)
            \<and> round_double (T + 60) = Fin (T + 60) \<longrightarrow>
             (T + 61 \<le> now \<longrightarrow>
                needs_authentication
                  (self\<lparr> access_token := dict_get d ''access_token'' JNull,
                         token_expires_at := Some (fsub (fadd (Fin T) x) (Fin 60)) \<rparr>) now)
           \<and> (now < T + 60 \<and> T + 60 \<noteq> 0 \<longrightarrow>
                \<not> needs_authentication
                  (self\<lparr> access_token := dict_get d ''access_token'' JNull,
                         token_expires_at := Some (fsub (fadd (Fin T) x) (Fin 60)) \<rparr>) now))"
proof (intro conjI)
  show "authenticate fos self T (Responded r) =
           (Inr (), self\<lparr> access_token := dict_get d ''access_token'' JNull,
                           token_expires_at := Some (fsub (fadd (Fin T) x) (Fin 60)) \<rparr>)"
    using ok body tok exp by (simp add: authenticate_def Let_def)
next
  show "map_of d ''expires_in'' = None \<longrightarrow> x = Fin 1799"
    using exp by (auto simp: dict_get_def float_eval)
next
  show "\<forall>v. x = Fin v \<and> round_double (T + v) = Fin (T + v)
                \<and> round_double (T + v - 60) = Fin (T + v - 60) \<longrightarrow>
              fsub (fadd (Fin T) x) (Fin 60) = Fin (T + v - 60)"
    by (auto simp: fsub_Fin)
next
  show "\<forall>s. needs_authentication s now \<longleftrightarrow>
              \<not> py_bool (access_token s) \<or> token_expires_at s = None
              \<or> token_expires_at s = Some (Fin 0)
              \<or> (\<exists>e. token_expires_at s = Some e \<and> fge (Fin now) e)"
    by (auto simp: needs_authentication_def split: option.splits)
next
  show "\<forall>s. \<not> needs_authentication s now \<longrightarrow>
              get_auth_headers repr fos s now T' out' =
                (Inr \<lparr> Authorization = ''Bearer '' @ py_str repr (access_token s),
                       x_api_key = api_key s, Accept = ''application/json'' \<rparr>, s)
              \<and> snd (request repr fos s now T' out' outcome) = s
              \<and> snd (get_document repr fos s now T' out' outcome) = s"
    by (simp add: request_state get_document_state get_auth_headers_state)
       (simp add: get_auth_headers_def)
next
  show "\<forall>s. needs_authentication s now \<longrightarrow>
              snd (get_auth_headers repr fos s now T' out') = snd (authenticate fos s T' out')
              \<and> snd (request repr fos s now T' out' outcome) = snd (authenticate fos s T' out')
              \<and> snd (get_document repr fos s now T' out' outcome) =
                    snd (authenticate fos s T' out')
              \<and> (\<forall>e. fst (authenticate fos s T' out') = Inl e \<longrightarrow>
                     fst (request repr fos s now T' out' outcome) = Inl e
                     \<and> fst (get_document repr fos s now T' out' outcome) = Inl e)"
    by (auto simp: request_state get_document_state get_auth_headers_state
             intro: request_auth_error get_document_auth_error get_auth_headers_error)
next
  show "x = Fin 120 \<and> round_double (T + 120) = Fin (T + 120)
            \<and> round_double (T + 60) = Fin (T + 60) \<longrightarrow>
             (T + 61 \<le> now \<longrightarrow>
                needs_authentication
                  (self\<lparr> access_token := dict_get d ''access_token'' JNull,
                         token_expires_at := Some (fsub (fadd (Fin T) x) (Fin 60)) \<rparr>) now)
           \<and> (now < T + 60 \<and> T + 60 \<noteq> 0 \<longrightarrow>
                \<not> needs_authentication
                  (self\<lparr> access_token := dict_get d ''access_token'' JNull,
                         token_expires_at := Some (fsub (fadd (Fin T) x) (Fin 60)) \<rparr>) now)"
  proof (intro impI, elim conjE)
    assume x: "x = Fin 120" and r1: "round_double (T + 120) = Fin (T + 120)"
      and r2: "round_double (T + 60) = Fin (T + 60)"
    have "fsub (fadd (Fin T) x) (Fin 60) = round_double (T + 120 - 60)"
      by (simp only: x fadd.simps r1 fsub_Fin)
    also have "T + 120 - 60 = T + 60" by simp
    finally have stored: "fsub (fadd (Fin T) x) (Fin 60) = Fin (T + 60)"
      by (simp only: r2)
    show "(T + 61 \<le> now \<longrightarrow>
                needs_authentication
                  (self\<lparr> access_token := dict_get d ''access_token'' JNull,
                         token_expires_at := Some (fsub (fadd (Fin T) x) (Fin 60)) \<rparr>) now)
           \<and> (now < T + 60 \<and> T + 60 \<noteq> 0 \<longrightarrow>
                \<not> needs_authentication
                  (self\<lparr> access_token := dict_get d ''access_token'' JNull,
                         token_expires_at := Some (fsub (fadd (Fin T) x) (Fin 60)) \<rparr>) now)"
      unfolding stored using tok by (auto simp: needs_authentication_def)
  qed
qed


theorem token_expiry_timing_witness:
  "\<not> raises_for_status \<lparr> status_code = 200, text' = ''{}'',
         json_result = Some (JObj [(''access_token'', JStr ''abc''), (''expires_in'', JInt 120)]),
         content = ''{}'' \<rparr>
   \<and> py_bool (dict_get [(''access_token'', JStr ''abc''), (''expires_in'', JInt 120)]
         ''access_token'' JNull)
   \<and> py_float (\<lambda>s. None)
         (dict_get [(''access_token'', JStr ''abc''), (''expires_in'', JInt 120)]
            ''expires_in'' (JInt 1799)) = Inr (Fin 120)
   \<and> round_double (1000 + 120) = Fin (1000 + 120)
   \<and> round_double (1000 + 60) = Fin (1000 + 60)
   \<and> authenticate (\<lambda>s. None)
        \<lparr> api_key = ''key'', access_token = JNull, token_expires_at = None \<rparr> 1000
        (Responded \<lparr> status_code = 200, text' = ''{}'',
           json_result = Some (JObj [(''access_token'', JStr ''abc''), (''expires_in'', JInt 120)]),
           content = ''{}'' \<rparr>) =
       (Inr (), \<lparr> api_key = ''key'', access_token = JStr ''abc'',
                  token_expires_at = Some (Fin 1060) \<rparr>)
   \<and> needs_authentication
        \<lparr> api_key = ''key'', access_token = JStr ''abc'', token_expires_at = Some (Fin 1060) \<rparr>
        1061
   \<and> \<not> needs_authentication
        \<lparr> api_key = ''key'', access_token = JStr ''abc'', token_expires_at = Some (Fin 1060) \<rparr>
        1059"
  using token_expiry_timing [where
      r = "\<lparr> status_code = 200, text' = ''{}'',
         json_result = Some (JObj [(''access_token'', JStr ''abc''), (''expires_in'', JInt 120)]),
         content = ''{}'' \<rparr>"
      and d = "[(''access_token'', JStr ''abc''), (''expires_in'', JInt 120)]"
      and fos = "\<lambda>s. None" and x = "Fin 120" and now = 1061 and T = 1000
      and self = "\<lparr> api_key = ''key'', access_token = JNull, token_expires_at = None \<rparr>"]
    token_expiry_timing [where
      r = "\<lparr> status_code = 200, text' = ''{}'',
         json_result = Some (JObj [(''access_token'', JStr ''abc''), (''expires_in'', JInt 120)]),
         content = ''{}'' \<rparr>"
      and d = "[(''access_token'', JStr ''abc''), (''expires_in'', JInt 120)]"
      and fos = "\<lambda>s. None" and x = "Fin 120" and now = 1059 and T = 1000
      and self = "\<lparr> api_key = ''key'', access_token = JNull, token_expires_at = None \<rparr>"]
  by (simp add: raises_for_status_def dict_get_def float_eval)

lemma round_double_even_above:
  "round_double 9007199254741992 = Fin 9007199254741992"
  "round_double 9007199254741932 = Fin 9007199254741932"
proof -
  have bl: "bit_length 9007199254741992 = 54" "bit_length 9007199254741932 = 54"
    by (simp_all add: bit_length.simps)
  have fl: "floor_log2 9007199254741992 = 53" "floor_log2 9007199254741932 = 53"
    using floor_log2_of_int [of 9007199254741992] floor_log2_of_int [of 9007199254741932]
    by (simp_all add: bl)
  have rhe: "round_half_even 4503599627370996 = 4503599627370996"
    "round_half_even 4503599627370966 = 4503599627370966"
    using round_half_even_of_int [of 4503599627370996]
      round_half_even_of_int [of 4503599627370966] by simp_all
  have small: "(9007199254741992 :: rat) < 2 ^ 64" "(9007199254741932 :: rat) < 2 ^ 64"
    by simp_all
  show "round_double 9007199254741992 = Fin 9007199254741992"
    unfolding round_double_def Let_def
    using no_overflow [OF small(1)] by (simp add: fl pow2_def rhe)
  show "round_double 9007199254741932 = Fin 9007199254741932"
    unfolding round_double_def Let_def
    using no_overflow [OF small(2)] by (simp add: fl pow2_def rhe)
qed

text \<open>
  C1 as stated fails in two places. With \<^verbatim>\<open>expires_in = 9007199254740993\<close> (that is
  \<open>2\<^sup>5\<^sup>3 + 1\<close>) at \<open>T = 1000\<close>, \<^verbatim>\<open>float(expires_in)\<close> is \<open>2\<^sup>5\<^sup>3\<close> and the stored
  timestamp is 9007199254741932, not \<open>T + expires_in - 60\<close>. And a token issued at
  \<open>T = -60\<close> with \<^verbatim>\<open>expires_in = 120\<close> gets the timestamp 0.0, which the test
  \<^verbatim>\<open>not self._token_expires_at\<close> takes for an absent one: a check at \<open>-5\<close>, before
  \<open>T + 60\<close>, re-authenticates.
\<close>

theorem token_expiry_timing_counterexample:
  "authenticate (\<lambda>s. None)
        \<lparr> api_key = ''key'', access_token = JNull, token_expires_at = None \<rparr> 1000
        (Responded \<lparr> status_code = 200, text' = ''{}'',
           json_result = Some (JObj [(''access_token'', JStr ''abc''),
                                     (''expires_in'', JInt 9007199254740993)]),
           content = ''{}'' \<rparr>) =
       (Inr (), \<lparr> api_key = ''key'', access_token = JStr ''abc'',
                  token_expires_at = Some (Fin 9007199254741932) \<rparr>)
   \<and> (1000 + 9007199254740993 - 60 :: rat) \<noteq> 9007199254741932
   \<and> authenticate (\<lambda>s. None)
        \<lparr> api_key = ''key'', access_token = JNull, token_expires_at = None \<rparr> (- 60)
        (Responded \<lparr> status_code = 200, text' = ''{}'',
           json_result = Some (JObj [(''access_token'', JStr ''abc''), (''expires_in'', JInt 120)]),
           content = ''{}'' \<rparr>) =
       (Inr (), \<lparr> api_key = ''key'', access_token = JStr ''abc'',
                  token_expires_at = Some (Fin 0) \<rparr>)
   \<and> (- 5 :: rat) < - 60 + 60
   \<and> needs_authentication
        \<lparr> api_key = ''key'', access_token = JStr ''abc'', token_expires_at = Some (Fin 0) \<rparr>
        (- 5)"
  by (simp add: authenticate_def raises_for_status_def dict_get_def needs_authentication_def
        float_of_int_def round_double_big round_double_even_above float_eval)

end
